theory Spec2Isabelle
  imports Complex_Main "HOL-Library.AList"
begin

section \<open>Python values and errors\<close>

text \<open>
  The two scripts \<^verbatim>\<open>build_font.py\<close> and \<^verbatim>\<open>extract_font.py\<close> edit an in-memory
  fontTools font object. Every exception the scripts raise, and every failed subscript or
  attribute access on the way, is a value of \<open>py_error\<close>; a function that can raise returns
  \<open>py_error + 'a\<close>.
\<close>

datatype py_error =
    ValueError string
  | KeyError string
  | AttributeError string
  | IndexError
  | TypeError string
  | NotImplementedError string
  | LibraryError string

text \<open>A Python \<^verbatim>\<open>dict\<close> keeps insertion order: an association list, read with
  \<open>map_of\<close> and written with \<open>AList.update\<close> (an existing key keeps its place, a new
  key goes last).\<close>

type_synonym ('k, 'v) dict = "('k \<times> 'v) list"

definition dict_update :: "('k, 'v) dict \<Rightarrow> ('k, 'v) dict \<Rightarrow> ('k, 'v) dict" where
  \<comment> \<open>\<^verbatim>\<open>d.update(e)\<close>\<close>
  "dict_update d e = fold (\<lambda>kv acc. AList.update (fst kv) (snd kv) acc) e d"

definition startswith :: "string \<Rightarrow> string \<Rightarrow> bool" where
  \<comment> \<open>\<^verbatim>\<open>s.startswith(p)\<close>\<close>
  "startswith s p = (take (length p) s = p)"

definition py_int :: "real \<Rightarrow> int" where
  \<comment> \<open>\<^verbatim>\<open>int(x)\<close> of a float: truncation toward zero\<close>
  "py_int x = (if 0 \<le> x then \<lfloor>x\<rfloor> else \<lceil>x\<rceil>)"

definition py_round :: "real \<Rightarrow> int" where
  \<comment> \<open>\<^verbatim>\<open>round(x)\<close> of a float: to the nearest integer, a tie to the even one\<close>
  "py_round x =
     (let f = \<lfloor>x\<rfloor>; d = x - of_int f
      in if d < 1 / 2 then f else if 1 / 2 < d then f + 1 else if even f then f else f + 1)"

definition merge_font_prefix :: string where
  "merge_font_prefix = ''inter_''"

section \<open>The font object\<close>

subsection \<open>Layout tables (GSUB and GPOS)\<close>

text \<open>
  fontTools gives both layout tables the same three lists. The count fields are attributes
  of their own, set when the table is read; the scripts read and write them next to the
  lists. The type parameter is the type of a lookup's subtables.
\<close>

record lang_sys =
  ReqFeatureIndex :: nat
  FeatureIndex :: "nat list"

record lang_sys_record =
  LangSysTag :: string
  LangSys :: lang_sys

record script =
  DefaultLangSys :: "lang_sys option"
  LangSysRecord :: "lang_sys_record list"

record script_record =
  ScriptTag :: string
  Script :: script

record script_list =
  ScriptCount :: nat
  ScriptRecord :: "script_record list"

record feature =
  LookupListIndex :: "nat list"

record feature_record =
  FeatureTag :: string
  Feature :: feature

record feature_list =
  FeatureCount :: nat
  FeatureRecord :: "feature_record list"

record 's lookup =
  LookupType :: nat
  SubTable :: "'s list"

record 's lookup_list =
  LookupCount :: nat
  Lookup :: "'s lookup list"

record 's layout_table =
  ScriptList :: "script_list option"
  FeatureList :: "feature_list option"
  LookupList :: "'s lookup_list option"

text \<open>
  A substitution subtable: \<^verbatim>\<open>apply_stylistic_sets\<close> looks only at the attribute
  \<^verbatim>\<open>mapping\<close>, which a single substitution has as a dict from glyph name to glyph name and
  a multiple substitution as a dict from glyph name to a list of names.
\<close>

datatype gsub_subtable =
    SingleSubst "(string, string) dict"
  | MultipleSubst "(string, string list) dict"
  | OtherSubst

text \<open>
  A positioning subtable is an object graph that \<^verbatim>\<open>remap\<close> walks by attribute
  introspection (\<^verbatim>\<open>hasattr\<close>, \<^verbatim>\<open>dir\<close>, \<^verbatim>\<open>getattr\<close>), so it is modelled as
  the Python values it is made of: an object is the dict of its data attributes. fontTools
  builds every subtable object afresh when it reads a table and \<^verbatim>\<open>deepcopy\<close> keeps that
  shape, so the graph is a tree.
\<close>

datatype pyval =
    PNone
  | PInt int
  | PStr string
  | PList "pyval list"
  | PTuple "pyval list"
  | PDict "(string, int) dict"
  | PObj "(string, pyval) dict"

subsection \<open>Glyphs, metrics, character map\<close>

text \<open>
  The outline data of a glyph (coordinates or component references) is kept abstract, of
  type \<open>'o\<close>: no function of the scripts looks into it, they hand it to fontTools pens.
  \<open>bounds\<close> is \<open>(xMin, yMin, xMax, yMax)\<close> when the glyph object has these attributes.
\<close>

record 'o glyph =
  isComposite :: bool
  numberOfContours :: int
  bounds :: "(int \<times> int \<times> int \<times> int) option"
  outline :: 'o

record transform =
  xx :: real
  xy :: real
  yx :: real
  yy :: real
  dx :: real
  dy :: real

definition Transform_translate :: "real \<Rightarrow> real \<Rightarrow> transform" where
  \<comment> \<open>\<^verbatim>\<open>Transform().translate(x, y)\<close>\<close>
  "Transform_translate x y = \<lparr>xx = 1, xy = 0, yx = 0, yy = 1, dx = x, dy = y\<rparr>"

record cmap_subtable =
  format :: nat
  platformID :: nat
  platEncID :: nat
  cmap :: "(nat, string) dict"

definition isUnicode :: "cmap_subtable \<Rightarrow> bool" where
  \<comment> \<open>fontTools: platform 0, or platform 3 with encoding 0, 1 or 10\<close>
  "isUnicode t = (platformID t = 0 \<or> (platformID t = 3 \<and> platEncID t \<in> {0, 1, 10}))"

record name_record =
  nameID :: nat
  encoding :: string
  str :: string

record os2_table =
  sTypoLineGap :: int
  usWinAscent :: int
  usWinDescent :: int

text \<open>
  The font: its glyph order, the tables the scripts read (\<open>None\<close> when the font has no
  such table), the tags of its other tables, and the attribute \<^verbatim>\<open>_inter_gpos_merged\<close>
  that the merge sets on the font object (absent reads as \<open>False\<close>).
\<close>

record 'o font =
  glyphOrder :: "string list"
  glyf :: "(string, 'o glyph) dict option"
  hmtx :: "(string, int \<times> int) dict option"
  cmap_tables :: "cmap_subtable list option"
  GSUB :: "gsub_subtable layout_table option"
  GPOS :: "pyval layout_table option"
  name_table :: "name_record list option"
  hhea_lineGap :: "int option"
  OS2 :: "os2_table option"
  other_tables :: "string list"
  inter_gpos_merged :: bool

text \<open>
  What the scripts get from fontTools and Python without looking inside:
  \<^item> \<open>pen (Some t) g\<close>: the glyph a \<^verbatim>\<open>TTGlyphPen\<close> builds when \<open>g\<close> is drawn into it
    through a \<^verbatim>\<open>TransformPen\<close> with transform \<open>t\<close>, and \<open>pen None g\<close> when it is drawn
    into it directly;
  \<^item> \<open>getGlyphSet font\<close>: the exception of \<^verbatim>\<open>font.getGlyphSet()\<close>, if it raises one;
  \<^item> \<open>recalcBounds g\<close>: \<open>g\<close> after \<^verbatim>\<open>recalcBounds\<close>;
  \<^item> \<open>fround x\<close>: the double nearest to \<open>x\<close>, the rounding of one float operation;
  \<^item> \<open>encode s e\<close>: \<^verbatim>\<open>s.encode(e)\<close>;
  \<^item> \<open>decompose gl n\<close>: the glyph a \<^verbatim>\<open>TTGlyphPen\<close> builds when glyph \<open>n\<close> of the
    glyph set over the glyphs \<open>gl\<close> is drawn into it through a
    \<^verbatim>\<open>DecomposingFilterPen\<close>;
  \<^item> \<open>instantiateVariableFont\<close>, \<open>removeOverlaps\<close>: the fontTools functions of these
    names;
  \<^item> \<open>apply_gpos_transform\<close>: the function of this name in \<^verbatim>\<open>extract_font.py\<close>, which
    rewrites the value records and anchors of the positioning table. What it computes is
    left open; the claims are about whether it is called.
\<close>

record 'o env =
  pen :: "transform option \<Rightarrow> 'o glyph \<Rightarrow> 'o glyph"
  getGlyphSet :: "'o font \<Rightarrow> py_error option"
  recalcBounds :: "'o glyph \<Rightarrow> 'o glyph"
  fround :: "real \<Rightarrow> real"
  encode :: "string \<Rightarrow> string \<Rightarrow> py_error + string"
  decompose :: "(string, 'o glyph) dict \<Rightarrow> string \<Rightarrow> py_error + 'o glyph"
  instantiateVariableFont :: "'o font \<Rightarrow> (string, real) dict \<Rightarrow> py_error + 'o font"
  removeOverlaps :: "'o font \<Rightarrow> py_error + 'o font"
  apply_gpos_transform :: "'o font \<Rightarrow> transform \<Rightarrow> py_error + 'o font"

definition has_table :: "'o font \<Rightarrow> string \<Rightarrow> bool" where
  \<comment> \<open>\<^verbatim>\<open>tag in font\<close> for a table that is not one of the record's fields\<close>
  "has_table font tag = (tag \<in> set (other_tables font))"

section \<open>build\_font.py\<close>

subsection \<open>process\_glyphs\<close>

text \<open>
  \<^verbatim>\<open>expand = int(width * cjk_width_extend_percent / 2)\<close>: the product and the quotient are
  float operations, each rounded by \<open>fround\<close>. (\<^verbatim>\<open>shift = int(expand / 2)\<close> is computed by
  the source and never used.)
\<close>

definition expand_of :: "'o env \<Rightarrow> int \<Rightarrow> real \<Rightarrow> int" where
  "expand_of E width pct = py_int (fround E (fround E (of_int width * pct) / 2))"

fun process_glyphs_loop ::
  "'o env \<Rightarrow> real \<Rightarrow> string list \<Rightarrow>
   (string, 'o glyph) dict \<times> (string, int \<times> int) dict \<times> string set \<times> string set \<Rightarrow>
   py_error + (string, 'o glyph) dict \<times> (string, int \<times> int) dict \<times> string set \<times> string set"
where
  "process_glyphs_loop E pct [] st = Inr st"
| "process_glyphs_loop E pct (glyph_name # rest) (gl, hm, processed, unprocessed) =
     (case map_of hm glyph_name of
        None \<Rightarrow> Inl (KeyError glyph_name)
      | Some (width, lsb) \<Rightarrow>
          if 1000 \<le> width \<and> \<not> startswith glyph_name merge_font_prefix then
            (let expand = expand_of E width pct in
             case map_of gl glyph_name of
               None \<Rightarrow> Inl (KeyError glyph_name)
             | Some g \<Rightarrow>
                 process_glyphs_loop E pct rest
                   (AList.update glyph_name (pen E (Some (Transform_translate 0 0)) g) gl,
                    AList.update glyph_name (width + expand * 2, lsb + expand) hm,
                    insert glyph_name processed, unprocessed))
          else process_glyphs_loop E pct rest (gl, hm, processed, insert glyph_name unprocessed))"

definition process_glyphs ::
  "'o env \<Rightarrow> 'o font \<Rightarrow> real \<Rightarrow> py_error + 'o font \<times> string set \<times> string set" where
  "process_glyphs E font cjk_width_extend_percent =
     (case glyf font of
        None \<Rightarrow> Inl (KeyError ''glyf'')
      | Some gl \<Rightarrow>
     (case getGlyphSet E font of
        Some e \<Rightarrow> Inl e
      | None \<Rightarrow>
     (case hmtx font of
        None \<Rightarrow> Inl (KeyError ''hmtx'')
      | Some hm \<Rightarrow>
     (case process_glyphs_loop E cjk_width_extend_percent (glyphOrder font) (gl, hm, {}, {}) of
        Inl e \<Rightarrow> Inl e
      | Inr (gl', hm', processed, unprocessed) \<Rightarrow>
          Inr (font\<lparr>glyf := Some gl', hmtx := Some hm'\<rparr>, processed, unprocessed)))))"


text \<open>A \<^verbatim>\<open>for\<close> loop over a list whose body can raise: the first exception ends it.\<close>

fun foldE :: "('a \<Rightarrow> 's \<Rightarrow> 'e + 's) \<Rightarrow> 'a list \<Rightarrow> 's \<Rightarrow> 'e + 's" where
  "foldE f [] s = Inr s"
| "foldE f (x # xs) s = (case f x s of Inl e \<Rightarrow> Inl e | Inr s' \<Rightarrow> foldE f xs s')"

fun mapE :: "('a \<Rightarrow> 'e + 'b) \<Rightarrow> 'a list \<Rightarrow> 'e + 'b list" where
  "mapE f [] = Inr []"
| "mapE f (x # xs) =
     (case f x of
        Inl e \<Rightarrow> Inl e
      | Inr y \<Rightarrow> (case mapE f xs of Inl e \<Rightarrow> Inl e | Inr ys \<Rightarrow> Inr (y # ys)))"

subsection \<open>set\_font\_parameter, set\_line\_gap, remove\_font\_tables\<close>

definition set_name_record ::
  "'o env \<Rightarrow> string \<Rightarrow> string \<Rightarrow> name_record \<Rightarrow> py_error + name_record" where
  "set_name_record E new_name new_version r =
     (let put = (\<lambda>s. case encode E s (encoding r) of
                        Inl e \<Rightarrow> Inl e
                      | Inr b \<Rightarrow> Inr (r\<lparr>str := b\<rparr>))
      in if nameID r = 1 \<or> nameID r = 4 then put new_name
         else if nameID r = 6 then
           put (map (\<lambda>c. if c = CHR '' '' then CHR ''-'' else c) new_name)
         else if nameID r = 5 then put new_version
         else if nameID r = 2 then put ''Regular''
         else Inr r)"

definition set_font_parameter ::
  "'o env \<Rightarrow> 'o font \<Rightarrow> string \<Rightarrow> string \<Rightarrow> py_error + 'o font" where
  "set_font_parameter E font new_name new_version =
     (case name_table font of
        None \<Rightarrow> Inl (KeyError ''name'')
      | Some names \<Rightarrow>
          (case mapE (set_name_record E new_name new_version)
                  (filter (\<lambda>r. nameID r \<noteq> 17) names) of
             Inl e \<Rightarrow> Inl e
           | Inr names' \<Rightarrow> Inr (font\<lparr>name_table := Some names'\<rparr>)))"

definition set_line_gap :: "'o font \<Rightarrow> int \<Rightarrow> 'o font" where
  "set_line_gap font new_line_gap =
     font\<lparr>hhea_lineGap := map_option (\<lambda>_. new_line_gap) (hhea_lineGap font),
          OS2 := map_option
            (\<lambda>t. t\<lparr>sTypoLineGap := new_line_gap,
                    usWinAscent := usWinAscent t + new_line_gap div 2,
                    usWinDescent := usWinDescent t + new_line_gap div 2\<rparr>)
            (OS2 font)\<rparr>"

text \<open>
  \<^verbatim>\<open>remove_font_tables\<close> deletes \<^verbatim>\<open>STAT\<close>, then every table whose tag starts with
  \<^verbatim>\<open>cv\<close>, then \<^verbatim>\<open>GSUB\<close>. None of the tables that are fields of the font record has
  a tag that starts with \<^verbatim>\<open>cv\<close>, so \<^verbatim>\<open>font.keys()\<close> is searched in \<open>other_tables\<close>.
\<close>

definition del_table :: "string \<Rightarrow> 'o font \<Rightarrow> 'o font" where
  "del_table tag font = font\<lparr>other_tables := removeAll tag (other_tables font)\<rparr>"

definition remove_font_tables :: "'o font \<Rightarrow> 'o font" where
  "remove_font_tables font =
     (let font1 = (if has_table font ''STAT'' then del_table ''STAT'' font else font);
          cv_tables = filter (\<lambda>tag. startswith tag ''cv'') (other_tables font1);
          font2 = fold del_table cv_tables font1
      in if GSUB font2 \<noteq> None then font2\<lparr>GSUB := None\<rparr> else font2)"

subsection \<open>apply\_stylistic\_sets\<close>

text \<open>
  \<^verbatim>\<open>glyf[src] = glyf[dst]\<close> and \<^verbatim>\<open>font['hmtx'][src] = font['hmtx'][dst]\<close> for the pairs
  of a single substitution whose two names are in the glyph order. (\<^verbatim>\<open>if glyf:\<close> asks
  the table for its length.) In a multiple substitution \<^verbatim>\<open>dst\<close> is a list, which is not
  in the glyph order.
\<close>

definition apply_pair ::
  "string list \<Rightarrow> string \<times> string \<Rightarrow>
   (string, 'o glyph) dict option \<times> (string, int \<times> int) dict option \<Rightarrow>
   py_error + (string, 'o glyph) dict option \<times> (string, int \<times> int) dict option" where
  "apply_pair glyph_order sd st =
     (let src = fst sd; dst = snd sd; gl = fst st; hm = snd st in
      if src \<in> set glyph_order \<and> dst \<in> set glyph_order then
        (case (case gl of
                 None \<Rightarrow> Inr None
               | Some g \<Rightarrow>
                   if g = [] then Inr gl
                   else (case map_of g dst of
                           None \<Rightarrow> Inl (KeyError dst)
                         | Some d \<Rightarrow> Inr (Some (AList.update src d g)))) of
           Inl e \<Rightarrow> Inl e
         | Inr gl' \<Rightarrow>
             (case hm of
                None \<Rightarrow> Inr (gl', None)
              | Some h \<Rightarrow>
                  (case map_of h dst of
                     None \<Rightarrow> Inl (KeyError dst)
                   | Some mt \<Rightarrow> Inr (gl', Some (AList.update src mt h)))))
      else Inr st)"

definition apply_subtable ::
  "string list \<Rightarrow> gsub_subtable \<Rightarrow>
   (string, 'o glyph) dict option \<times> (string, int \<times> int) dict option \<Rightarrow>
   py_error + (string, 'o glyph) dict option \<times> (string, int \<times> int) dict option" where
  "apply_subtable glyph_order subtable st =
     (case subtable of
        SingleSubst mapping \<Rightarrow> foldE (apply_pair glyph_order) mapping st
      | _ \<Rightarrow> Inr st)"

definition apply_lookup ::
  "string list \<Rightarrow> gsub_subtable lookup_list option \<Rightarrow> nat \<Rightarrow>
   (string, 'o glyph) dict option \<times> (string, int \<times> int) dict option \<Rightarrow>
   py_error + (string, 'o glyph) dict option \<times> (string, int \<times> int) dict option" where
  "apply_lookup glyph_order lookupList lookup_idx st =
     (case lookupList of
        None \<Rightarrow> Inl (AttributeError ''Lookup'')
      | Some ll \<Rightarrow>
          if lookup_idx < length (Lookup ll)
          then foldE (apply_subtable glyph_order) (SubTable (Lookup ll ! lookup_idx)) st
          else Inl IndexError)"

definition apply_stylistic_sets :: "'o env \<Rightarrow> 'o font \<Rightarrow> string \<Rightarrow> py_error + 'o font" where
  "apply_stylistic_sets E font tag =
     (case GSUB font of
        None \<Rightarrow> Inr font
      | Some gsub \<Rightarrow>
     (case getGlyphSet E font of
        Some e \<Rightarrow> Inl e
      | None \<Rightarrow>
     (case FeatureList gsub of
        None \<Rightarrow> Inl (AttributeError ''FeatureRecord'')
      | Some featureList \<Rightarrow>
          (let ssXX_features = filter (\<lambda>f. FeatureTag f = tag) (FeatureRecord featureList) in
           case foldE (\<lambda>f. foldE (apply_lookup (glyphOrder font) (LookupList gsub))
                              (LookupListIndex (Feature f)))
                  ssXX_features (glyf font, hmtx font) of
             Inl e \<Rightarrow> Inl e
           | Inr (gl, hm) \<Rightarrow> Inr (font\<lparr>glyf := gl, hmtx := hm\<rparr>)))))"

subsection \<open>remove\_stylistic\_sets, remove\_locl\_feature\<close>

definition digit_char :: "nat \<Rightarrow> char" where
  "digit_char d = char_of (48 + d)"

definition ss_tag :: "nat \<Rightarrow> string" where
  \<comment> \<open>\<^verbatim>\<open>f'ss{str(i).zfill(2)}'\<close>, for \<open>i < 100\<close>\<close>
  "ss_tag i = ''ss'' @ [digit_char (i div 10), digit_char (i mod 10)]"

definition ssXX_tags :: "string list" where
  "ssXX_tags = map ss_tag [1..<21]"

definition tag_indices :: "(string \<Rightarrow> bool) \<Rightarrow> feature_record list \<Rightarrow> nat list" where
  \<comment> \<open>\<^verbatim>\<open>[i for i, f in enumerate(FeatureRecord) if P(f.FeatureTag)]\<close>\<close>
  "tag_indices P frs = map fst (filter (\<lambda>p. P (FeatureTag (snd p))) (enumerate 0 frs))"

definition drop_indices :: "nat list \<Rightarrow> 'a list \<Rightarrow> 'a list" where
  \<comment> \<open>\<^verbatim>\<open>[f for i, f in enumerate(xs) if i not in idxs]\<close>\<close>
  "drop_indices idxs xs = map snd (filter (\<lambda>p. fst p \<notin> set idxs) (enumerate 0 xs))"

definition prune_lang_sys :: "nat list \<Rightarrow> lang_sys \<Rightarrow> lang_sys" where
  "prune_lang_sys idxs ls =
     ls\<lparr>FeatureIndex := filter (\<lambda>idx. idx \<notin> set idxs) (FeatureIndex ls)\<rparr>"

definition prune_script_record :: "nat list \<Rightarrow> script_record \<Rightarrow> script_record" where
  "prune_script_record idxs sr =
     sr\<lparr>Script := (Script sr)
          \<lparr>DefaultLangSys := map_option (prune_lang_sys idxs) (DefaultLangSys (Script sr)),
           LangSysRecord :=
             map (\<lambda>lsr. lsr\<lparr>LangSys := prune_lang_sys idxs (LangSys lsr)\<rparr>)
               (LangSysRecord (Script sr))\<rparr>\<rparr>"

definition remove_stylistic_sets :: "'o font \<Rightarrow> py_error + 'o font" where
  "remove_stylistic_sets font =
     (case GSUB font of
        None \<Rightarrow> Inr font
      | Some gsub \<Rightarrow>
     (case FeatureList gsub of
        None \<Rightarrow> Inl (AttributeError ''FeatureRecord'')
      | Some featureList \<Rightarrow>
          (let ssXX_indices = tag_indices (\<lambda>t. t \<in> set ssXX_tags) (FeatureRecord featureList);
               featureList' = featureList
                 \<lparr>FeatureRecord := drop_indices ssXX_indices (FeatureRecord featureList)\<rparr>
           in case ScriptList gsub of
                None \<Rightarrow> Inl (AttributeError ''ScriptRecord'')
              | Some scriptList \<Rightarrow>
                  Inr (font\<lparr>GSUB := Some (gsub
                    \<lparr>FeatureList := Some featureList',
                     ScriptList := Some (scriptList
                       \<lparr>ScriptRecord :=
                          map (prune_script_record ssXX_indices) (ScriptRecord scriptList)\<rparr>)\<rparr>)\<rparr>))))"

definition remove_locl_feature :: "'o font \<Rightarrow> py_error + 'o font" where
  "remove_locl_feature font =
     (case GSUB font of
        None \<Rightarrow> Inr font
      | Some gsub \<Rightarrow>
     (case FeatureList gsub of
        None \<Rightarrow> Inl (AttributeError ''FeatureRecord'')
      | Some featureList \<Rightarrow>
          (let locl_indices = tag_indices (\<lambda>t. t = ''locl'') (FeatureRecord featureList) in
           if locl_indices = [] then Inr font
           else
             (let featureList' = featureList
                    \<lparr>FeatureRecord := drop_indices locl_indices (FeatureRecord featureList)\<rparr>
              in case ScriptList gsub of
                   None \<Rightarrow> Inl (AttributeError ''ScriptRecord'')
                 | Some scriptList \<Rightarrow>
                     Inr (font\<lparr>GSUB := Some (gsub
                       \<lparr>FeatureList := Some featureList',
                        ScriptList := Some (scriptList
                          \<lparr>ScriptRecord :=
                             map (prune_script_record locl_indices)
                               (ScriptRecord scriptList)\<rparr>)\<rparr>)\<rparr>)))))"

subsection \<open>merge\_inter\_font\_gpos\_table: the nested function remap\<close>

text \<open>
  \<^verbatim>\<open>inter_name_map.get(g, g)\<close>. In a coverage list the comprehension maps every item; an
  item that is not a string is no key of the name map and stays.

  fontTools types the attributes that \<^verbatim>\<open>remap\<close> rewrites: \<^verbatim>\<open>glyphs\<close> is a list of
  glyph names, \<^verbatim>\<open>classDefs\<close> a dict from glyph name to class, \<^verbatim>\<open>PairSet\<close> a list of
  objects whose \<^verbatim>\<open>PairValueRecord\<close> is a list of records. Where a value of another shape
  stands under one of these names (an unhashable item in \<^verbatim>\<open>glyphs\<close>, a \<^verbatim>\<open>classDefs\<close>
  below \<^verbatim>\<open>ClassDef1\<close> that is no dict, a \<^verbatim>\<open>PairValueRecord\<close> that cannot be iterated)
  the interpreter raises; the model covers the typed shapes and leaves any other value as
  it is.
\<close>

definition rename :: "(string, string) dict \<Rightarrow> string \<Rightarrow> string" where
  "rename m g = (case map_of m g of None \<Rightarrow> g | Some n \<Rightarrow> n)"

fun rename_item :: "(string, string) dict \<Rightarrow> pyval \<Rightarrow> pyval" where
  "rename_item m (PStr g) = PStr (rename m g)"
| "rename_item m v = v"

definition rename_keys :: "(string, string) dict \<Rightarrow> (string, int) dict \<Rightarrow> (string, int) dict" where
  \<comment> \<open>\<^verbatim>\<open>{inter_name_map.get(g, g): cls for g, cls in classDefs.items()}\<close>\<close>
  "rename_keys m d = fold (\<lambda>kv acc. AList.update (rename m (fst kv)) (snd kv) acc) d []"

definition remap_glyphs ::
  "(string, string) dict \<Rightarrow> (string, pyval) dict \<Rightarrow> (string, pyval) dict" where
  "remap_glyphs m a =
     (case map_of a ''glyphs'' of
        Some (PList gs) \<Rightarrow> AList.update ''glyphs'' (PList (map (rename_item m) gs)) a
      | _ \<Rightarrow> a)"

definition remap_classDefs ::
  "(string, string) dict \<Rightarrow> (string, pyval) dict \<Rightarrow> (string, pyval) dict" where
  "remap_classDefs m a =
     (case map_of a ''classDefs'' of
        Some (PDict d) \<Rightarrow> AList.update ''classDefs'' (PDict (rename_keys m d)) a
      | _ \<Rightarrow> a)"

definition remap_ClassDef ::
  "string \<Rightarrow> (string, string) dict \<Rightarrow> (string, pyval) dict \<Rightarrow> (string, pyval) dict" where
  \<comment> \<open>the branches for \<^verbatim>\<open>ClassDef1\<close> and \<^verbatim>\<open>ClassDef2\<close>\<close>
  "remap_ClassDef attr m a =
     (case map_of a attr of
        Some (PObj c) \<Rightarrow>
          (case map_of c ''classDefs'' of
             Some (PDict d) \<Rightarrow>
               AList.update attr (PObj (AList.update ''classDefs'' (PDict (rename_keys m d)) c)) a
           | _ \<Rightarrow> a)
      | _ \<Rightarrow> a)"

definition remap_pvr :: "(string, string) dict \<Rightarrow> pyval \<Rightarrow> pyval" where
  "remap_pvr m pvr =
     (case pvr of
        PObj p \<Rightarrow>
          (case map_of p ''SecondGlyph'' of
             Some (PStr g) \<Rightarrow> PObj (AList.update ''SecondGlyph'' (PStr (rename m g)) p)
           | _ \<Rightarrow> pvr)
      | _ \<Rightarrow> pvr)"

definition remap_pairSet :: "(string, string) dict \<Rightarrow> pyval \<Rightarrow> pyval" where
  "remap_pairSet m pairSet =
     (case pairSet of
        PObj ps \<Rightarrow>
          (case map_of ps ''PairValueRecord'' of
             Some (PList pvrs) \<Rightarrow>
               PObj (AList.update ''PairValueRecord'' (PList (map (remap_pvr m) pvrs)) ps)
           | Some (PTuple pvrs) \<Rightarrow>
               PObj (AList.update ''PairValueRecord'' (PTuple (map (remap_pvr m) pvrs)) ps)
           | _ \<Rightarrow> pairSet)
      | _ \<Rightarrow> pairSet)"

definition remap_PairSet ::
  "(string, string) dict \<Rightarrow> (string, pyval) dict \<Rightarrow> (string, pyval) dict" where
  "remap_PairSet m a =
     (case map_of a ''PairSet'' of
        Some (PList pss) \<Rightarrow> AList.update ''PairSet'' (PList (map (remap_pairSet m) pss)) a
      | _ \<Rightarrow> a)"

definition remap_own ::
  "(string, string) dict \<Rightarrow> (string, pyval) dict \<Rightarrow> (string, pyval) dict" where
  \<comment> \<open>what \<^verbatim>\<open>remap\<close> rewrites on the object itself, in the order of the source\<close>
  "remap_own m a =
     remap_PairSet m (remap_ClassDef ''ClassDef2'' m (remap_ClassDef ''ClassDef1'' m
       (remap_classDefs m (remap_glyphs m a))))"

text \<open>The rewrites keep the size of the object, which is what \<^verbatim>\<open>remap\<close> descends on.\<close>

lemma size_update_same:
  "map_of a k = Some v \<Longrightarrow> size v' = size v \<Longrightarrow>
   size_list (size_prod (\<lambda>_. 0) size) (AList.update k v' a) =
   size_list (size_prod (\<lambda>_. 0) size) a"
  by (induction a) (auto split: if_splits)

lemma size_o_rename_item [simp]: "size \<circ> rename_item m = size"
proof (rule ext)
  fix v show "(size \<circ> rename_item m) v = size v" by (cases v) auto
qed

lemma size_remap_pvr [simp]: "size (remap_pvr m v) = size v"
  unfolding remap_pvr_def
  by (auto split: pyval.splits option.splits intro!: size_update_same)

lemma size_o_remap_pvr [simp]: "size \<circ> remap_pvr m = size"
  by (rule ext) simp

lemma size_remap_pairSet [simp]: "size (remap_pairSet m v) = size v"
  unfolding remap_pairSet_def
  by (auto split: pyval.splits option.splits intro!: size_update_same)

lemma size_o_remap_pairSet [simp]: "size \<circ> remap_pairSet m = size"
  by (rule ext) simp

lemma size_remap_glyphs [simp]:
  "size_list (size_prod (\<lambda>_. 0) size) (remap_glyphs m a) = size_list (size_prod (\<lambda>_. 0) size) a"
  unfolding remap_glyphs_def
  by (auto split: pyval.splits option.splits intro!: size_update_same)

lemma size_remap_classDefs [simp]:
  "size_list (size_prod (\<lambda>_. 0) size) (remap_classDefs m a) = size_list (size_prod (\<lambda>_. 0) size) a"
  unfolding remap_classDefs_def
  by (auto split: pyval.splits option.splits intro!: size_update_same)

lemma size_remap_ClassDef [simp]:
  "size_list (size_prod (\<lambda>_. 0) size) (remap_ClassDef n m a) = size_list (size_prod (\<lambda>_. 0) size) a"
  unfolding remap_ClassDef_def
  by (auto split: pyval.splits option.splits intro!: size_update_same)

lemma size_remap_PairSet [simp]:
  "size_list (size_prod (\<lambda>_. 0) size) (remap_PairSet m a) = size_list (size_prod (\<lambda>_. 0) size) a"
  unfolding remap_PairSet_def
  by (auto split: pyval.splits option.splits intro!: size_update_same)

lemma size_remap_own [simp]:
  "size_list (size_prod (\<lambda>_. 0) size) (remap_own m a) = size_list (size_prod (\<lambda>_. 0) size) a"
  by (simp add: remap_own_def)

lemma attr_size_le: "av \<in> set a \<Longrightarrow> size (snd av) \<le> size_list (size_prod (\<lambda>_. 0) size) a"
  by (induction a) auto

lemma item_size_lt: "x \<in> set xs \<Longrightarrow> size x < Suc (size_list size xs)"
  by (induction xs) auto

text \<open>
  \<^verbatim>\<open>remap(obj)\<close>: \<^verbatim>\<open>None\<close> is returned at once; an object is rewritten in place
  (\<open>remap_own\<close>) and then every attribute that \<^verbatim>\<open>dir(obj)\<close> lists and whose name does not
  start with an underscore is looked at: the items of a list are remapped, an object (a
  value with a \<^verbatim>\<open>__dict__\<close>) is remapped, a number, string, tuple or dict is left alone (the
  loop over a tuple tests \<^verbatim>\<open>isinstance(val, str)\<close> on the tuple and so never does
  anything). Called on a string, number, list, tuple or dict, \<^verbatim>\<open>remap\<close> finds none of
  the attributes it looks for and no attribute with a \<^verbatim>\<open>__dict__\<close>, and returns it
  unchanged. In a tree no object is met twice, so the \<^verbatim>\<open>visited\<close> set only stops the
  second of the two calls on \<^verbatim>\<open>ExtSubTable\<close> (the explicit one and the one of the
  attribute loop): the attribute is remapped once. \<^verbatim>\<open>dir\<close> lists methods and class
  attributes too (fontTools keeps its converter tables there); they hold no glyph name,
  and remapping them changes nothing of the font.
\<close>

function remap :: "(string, string) dict \<Rightarrow> pyval \<Rightarrow> pyval" where
  "remap m (PObj a) =
     PObj (map (\<lambda>av.
             if startswith (fst av) ''_'' then av
             else (case snd av of
                     PList items \<Rightarrow> (fst av, PList (map (remap m) items))
                   | PObj b \<Rightarrow> (fst av, remap m (PObj b))
                   | _ \<Rightarrow> av))
          (remap_own m a))"
| "remap m PNone = PNone"
| "remap m (PInt i) = PInt i"
| "remap m (PStr s) = PStr s"
| "remap m (PList xs) = PList xs"
| "remap m (PTuple xs) = PTuple xs"
| "remap m (PDict d) = PDict d"
  by pat_completeness auto
termination
proof (relation "measure (\<lambda>(m, v). size v)", goal_cases)
  case 1
  show ?case by simp
next
  case (2 m a av items x)
  then show ?case
    using attr_size_le[of av "remap_own m a"] item_size_lt[of x items] by simp
next
  case (3 m a av b)
  then show ?case
    using attr_size_le[of av "remap_own m a"] by simp
qed

text \<open>
  \<^verbatim>\<open>remap(new_gpos.table)\<close>: the table object, its script list and its feature list carry
  tags, counts and indices only, and the attribute loop goes through them down to the
  subtables of every lookup.
\<close>

definition remap_table :: "(string, string) dict \<Rightarrow> pyval layout_table \<Rightarrow> pyval layout_table" where
  "remap_table m t =
     t\<lparr>LookupList :=
         map_option
           (\<lambda>ll. ll\<lparr>Lookup := map (\<lambda>l. l\<lparr>SubTable := map (remap m) (SubTable l)\<rparr>) (Lookup ll)\<rparr>)
           (LookupList t)\<rparr>"

subsection \<open>merge\_inter\_font\_gpos\_table\<close>

definition offset_feature_record :: "nat \<Rightarrow> feature_record \<Rightarrow> feature_record" where
  "offset_feature_record lookup_offset fr =
     fr\<lparr>Feature := (Feature fr)
          \<lparr>LookupListIndex := map (\<lambda>i. lookup_offset + i) (LookupListIndex (Feature fr))\<rparr>\<rparr>"

definition offset_lang_sys :: "nat \<Rightarrow> lang_sys \<Rightarrow> lang_sys" where
  "offset_lang_sys feature_offset ls =
     ls\<lparr>FeatureIndex := map (\<lambda>fi. feature_offset + fi) (FeatureIndex ls)\<rparr>"

definition offset_script_record :: "nat \<Rightarrow> script_record \<Rightarrow> script_record" where
  "offset_script_record feature_offset srec =
     srec\<lparr>Script := (Script srec)
          \<lparr>DefaultLangSys :=
             map_option (offset_lang_sys feature_offset) (DefaultLangSys (Script srec)),
           LangSysRecord :=
             map (\<lambda>lsr. lsr\<lparr>LangSys := offset_lang_sys feature_offset (LangSys lsr)\<rparr>)
               (LangSysRecord (Script srec))\<rparr>\<rparr>"

definition insert_lookups :: "'s lookup list \<Rightarrow> 's lookup list \<Rightarrow> 's lookup list" where
  \<comment> \<open>\<^verbatim>\<open>for src_lookup in src: tgt.insert(0, src_lookup)\<close>\<close>
  "insert_lookups src tgt = fold (\<lambda>src_lookup acc. src_lookup # acc) src tgt"

definition merge_inter_font_gpos_table ::
  "'o font \<Rightarrow> 'o font \<Rightarrow> (string, string) dict \<Rightarrow> py_error + 'o font" where
  "merge_inter_font_gpos_table target_font inter_font inter_name_map =
     (if inter_gpos_merged target_font then Inr target_font
      else
     (case GPOS inter_font of
        None \<Rightarrow> Inr (target_font\<lparr>inter_gpos_merged := True\<rparr>)
      | Some inter_gpos \<Rightarrow>
     (case GPOS target_font of
        None \<Rightarrow>
          Inr (target_font\<lparr>GPOS := Some (remap_table inter_name_map inter_gpos),
                           inter_gpos_merged := True\<rparr>)
      | Some tgt_gpos \<Rightarrow>
     (case LookupList tgt_gpos of
        None \<Rightarrow> Inl (AttributeError ''LookupCount'')
      | Some tgt_ll \<Rightarrow>
     (case FeatureList tgt_gpos of
        None \<Rightarrow> Inl (AttributeError ''FeatureCount'')
      | Some tgt_fl \<Rightarrow>
     (let lookup_offset = LookupCount tgt_ll;
          feature_offset = FeatureCount tgt_fl;
          src_gpos = remap_table inter_name_map inter_gpos
      in
      case LookupList src_gpos of
        None \<Rightarrow> Inl (AttributeError ''Lookup'')
      | Some src_ll \<Rightarrow>
     (let lookups = insert_lookups (Lookup src_ll) (Lookup tgt_ll);
          features = FeatureRecord tgt_fl @
            (case FeatureList src_gpos of
               None \<Rightarrow> []
             | Some src_fl \<Rightarrow> map (offset_feature_record lookup_offset) (FeatureRecord src_fl));
          new_scripts =
            (case ScriptList src_gpos of
               None \<Rightarrow> []
             | Some src_sl \<Rightarrow> map (offset_script_record feature_offset) (ScriptRecord src_sl))
      in
      case ScriptList tgt_gpos of
        None \<Rightarrow> Inl (AttributeError ''ScriptRecord'')
      | Some tgt_sl \<Rightarrow>
          Inr (target_font
            \<lparr>GPOS := Some (tgt_gpos
               \<lparr>ScriptList := Some (tgt_sl
                  \<lparr>ScriptCount := length (ScriptRecord tgt_sl @ new_scripts),
                   ScriptRecord := ScriptRecord tgt_sl @ new_scripts\<rparr>),
                FeatureList := Some (tgt_fl
                  \<lparr>FeatureCount := length features, FeatureRecord := features\<rparr>),
                LookupList := Some (tgt_ll
                  \<lparr>LookupCount := length lookups, Lookup := lookups\<rparr>)\<rparr>),
             inter_gpos_merged := True\<rparr>))))))))"

subsection \<open>merge\_inter\_font\<close>

definition build_name_map :: "string list \<Rightarrow> (string, string) dict" where
  \<comment> \<open>\<^verbatim>\<open>inter_name_map[inter_glyph_name] = f"{merge_font_prefix}{inter_glyph_name}"\<close>\<close>
  "build_name_map inter_glyph_order =
     fold (\<lambda>g m. AList.update g (merge_font_prefix @ g) m) inter_glyph_order []"

definition copy_glyph ::
  "'o env \<Rightarrow> (string, 'o glyph) dict \<Rightarrow> (string, int \<times> int) dict \<Rightarrow> string \<times> string \<Rightarrow>
   (string, 'o glyph) dict \<times> (string, int \<times> int) dict \<Rightarrow>
   py_error + (string, 'o glyph) dict \<times> (string, int \<times> int) dict" where
  "copy_glyph E inter_glyf inter_hmtx nn st =
     (let inter_glyph_name = fst nn; new_glyph_name = snd nn in
      case map_of inter_glyf inter_glyph_name of
        None \<Rightarrow> Inl (KeyError inter_glyph_name)
      | Some glyph \<Rightarrow>
          if isComposite glyph then Inl (NotImplementedError ''Composite glyph not supported.'')
          else
            (let target_glyf = AList.update new_glyph_name (pen E None glyph) (fst st) in
             case map_of inter_hmtx inter_glyph_name of
               None \<Rightarrow> Inr (target_glyf, snd st)
             | Some mt \<Rightarrow> Inr (target_glyf, AList.update new_glyph_name mt (snd st))))"

definition inter_punc_map :: "int \<Rightarrow> (nat, string) dict" where
  "inter_punc_map replace_punc =
     (if 2 \<le> replace_punc then
        [(0xFF0C, ''comma''), (0xFF1A, ''colon''), (0xFF1B, ''semicolon''),
         (0xFF01, ''exclam''), (0xFF1F, ''question'')]
      else if 1 \<le> replace_punc then [(0xFF01, ''exclam''), (0xFF1F, ''question'')]
      else [])"

definition getBestCmap :: "cmap_subtable list \<Rightarrow> (nat, string) dict option" where
  \<comment> \<open>fontTools: the first subtable found for the first of its preferred (platform,
      encoding) pairs that the font has\<close>
  "getBestCmap tables =
     (case List.map_filter
             (\<lambda>pe. find (\<lambda>t. platformID t = fst pe \<and> platEncID t = snd pe) tables)
             [(3, 10), (0, 6), (0, 4), (3, 1), (0, 3), (0, 2), (0, 1), (0, 0)] of
        [] \<Rightarrow> None
      | t # _ \<Rightarrow> Some (cmap t))"

definition glyf_setitem :: "string \<Rightarrow> 'o glyph \<Rightarrow> 'o font \<Rightarrow> 'o font" where
  \<comment> \<open>\<^verbatim>\<open>glyf[name] = glyph\<close>: fontTools appends a new name to the glyph order. Elsewhere
      the scripts assign under names that are in the glyph order already.\<close>
  "glyf_setitem n g font =
     font\<lparr>glyphOrder := (if n \<in> set (glyphOrder font) then glyphOrder font
                          else glyphOrder font @ [n]),
          glyf := map_option (AList.update n g) (glyf font)\<rparr>"

definition bbox_center :: "int \<times> int \<times> int \<times> int \<Rightarrow> real \<times> real" where
  \<comment> \<open>\<^verbatim>\<open>((xMin + xMax) / 2, (yMin + yMax) / 2)\<close>, exact on integers of this size\<close>
  "bbox_center b =
     (case b of (xMin, yMin, xMax, yMax) \<Rightarrow>
        (of_int (xMin + xMax) / 2, of_int (yMin + yMax) / 2))"

definition replace_punc_glyph ::
  "'o env \<Rightarrow> (string, string) dict \<Rightarrow> (string, 'o glyph) dict \<Rightarrow> (string, int \<times> int) dict \<Rightarrow>
   nat \<times> string \<Rightarrow> 'o font \<Rightarrow> py_error + 'o font" where
  "replace_punc_glyph E inter_name_map inter_glyf inter_hmtx ci target_font =
     (let cp = fst ci; inter_glyph_name = snd ci in
      if map_of inter_name_map inter_glyph_name = None then
        Inl (ValueError (''Inter glyph '' @ [CHR 0x27] @ inter_glyph_name @ [CHR 0x27]
               @ '' not found in Inter font.''))
      else
     (case cmap_tables target_font of
        None \<Rightarrow> Inl (KeyError ''cmap'')
      | Some tables \<Rightarrow>
     (case getBestCmap tables of
        None \<Rightarrow> Inl (TypeError ''argument of type NoneType is not iterable'')
      | Some best \<Rightarrow>
     (case map_of best cp of
        None \<Rightarrow> Inr target_font
      | Some target_glyph_name \<Rightarrow>
     (case hmtx target_font of
        None \<Rightarrow> Inl (KeyError ''hmtx'')
      | Some target_hmtx \<Rightarrow>
     (case map_of target_hmtx target_glyph_name of
        None \<Rightarrow> Inl (KeyError target_glyph_name)
      | Some (cjk_width, cjk_lsb) \<Rightarrow>
     (case map_of inter_hmtx inter_glyph_name of
        None \<Rightarrow> Inl (KeyError inter_glyph_name)
      | Some (inter_width, inter_lsb) \<Rightarrow>
     (let shift = (cjk_width - inter_width) div 2 - inter_lsb in
      case getGlyphSet E target_font of
        Some e \<Rightarrow> Inl e
      | None \<Rightarrow>
          if cp = 0xFF0C \<or> cp = 0xFF1A \<or> cp = 0xFF1B then
            (case glyf target_font of
               None \<Rightarrow> Inl (KeyError ''glyf'')
             | Some target_glyf \<Rightarrow>
            (case map_of target_glyf target_glyph_name of
               None \<Rightarrow> Inl (KeyError target_glyph_name)
             | Some tg \<Rightarrow>
            (case bounds tg of
               None \<Rightarrow> Inl (ValueError ''Glyph has no bounding box.'')
             | Some original_bbox \<Rightarrow>
            (case map_of inter_glyf inter_glyph_name of
               None \<Rightarrow> Inl (KeyError inter_glyph_name)
             | Some ig \<Rightarrow>
            (case bounds ig of
               None \<Rightarrow> Inl (ValueError ''Glyph has no bounding box.'')
             | Some inter_bbox \<Rightarrow>
                 (let center_shift = fst (bbox_center original_bbox) - fst (bbox_center inter_bbox);
                      vertical_shift = snd (bbox_center original_bbox) - snd (bbox_center inter_bbox)
                  in Inr (glyf_setitem target_glyph_name
                            (pen E (Some (Transform_translate center_shift vertical_shift)) ig)
                            target_font)))))))
          else
            (case map_of inter_glyf inter_glyph_name of
               None \<Rightarrow> Inl (KeyError inter_glyph_name)
             | Some ig \<Rightarrow>
                 Inr (glyf_setitem target_glyph_name
                        (pen E (Some (Transform_translate (of_int shift) 0)) ig)
                        target_font))))))))))"

definition merged_cmap :: "cmap_subtable list \<Rightarrow> (nat, string) dict" where
  \<comment> \<open>\<^verbatim>\<open>for table in font['cmap'].tables: d.update(table.cmap)\<close>\<close>
  "merged_cmap tables = fold (\<lambda>t acc. dict_update acc (cmap t)) tables []"

definition is_control :: "nat \<Rightarrow> bool" where
  "is_control cp = (cp < 0x20 \<or> (0x7F \<le> cp \<and> cp < 0xA0))"

definition keeps_target_glyph ::
  "(nat, string) dict \<Rightarrow> (string, int \<times> int) dict \<Rightarrow> nat \<Rightarrow> bool" where
  \<comment> \<open>the test after which the source prints \<^verbatim>\<open>Skipping cmap update\<close> and continues\<close>
  "keeps_target_glyph target_cmap target_hmtx cp =
     (case map_of target_cmap cp of
        None \<Rightarrow> False
      | Some target_glyph_name \<Rightarrow>
          target_glyph_name \<noteq> [] \<and>
          (case map_of target_hmtx target_glyph_name of
             None \<Rightarrow> False
           | Some (width, lsb) \<Rightarrow> 1000 \<le> width))"

definition write_cmap :: "nat \<Rightarrow> string \<Rightarrow> cmap_subtable \<Rightarrow> cmap_subtable" where
  "write_cmap cp new_glyph_name t =
     (if isUnicode t then
        (if format t = 4 then
           (if cp \<le> 0xFFFF then t\<lparr>cmap := AList.update cp new_glyph_name (cmap t)\<rparr> else t)
         else if format t = 12 then t\<lparr>cmap := AList.update cp new_glyph_name (cmap t)\<rparr>
         else t)
      else t)"

definition update_cmap_entry ::
  "(string, string) dict \<Rightarrow> (nat, string) dict \<Rightarrow> (string, int \<times> int) dict \<Rightarrow>
   nat \<times> string \<Rightarrow> cmap_subtable list \<Rightarrow> py_error + cmap_subtable list" where
  "update_cmap_entry inter_name_map target_cmap target_hmtx ci tables =
     (let cp = fst ci; inter_glyph_name = snd ci in
      if is_control cp then Inr tables
      else if keeps_target_glyph target_cmap target_hmtx cp then Inr tables
      else (case map_of inter_name_map inter_glyph_name of
              None \<Rightarrow> Inl (KeyError inter_glyph_name)
            | Some new_glyph_name \<Rightarrow> Inr (map (write_cmap cp new_glyph_name) tables)))"

definition update_cmap ::
  "(string, string) dict \<Rightarrow> (string, int \<times> int) dict \<Rightarrow> cmap_subtable list \<Rightarrow>
   cmap_subtable list \<Rightarrow> py_error + cmap_subtable list" where
  \<comment> \<open>the part of \<^verbatim>\<open>merge_inter_font\<close> under \<^verbatim>\<open># Step 2: Update cmap mappings\<close>\<close>
  "update_cmap inter_name_map target_hmtx inter_tables target_tables =
     foldE (update_cmap_entry inter_name_map (merged_cmap target_tables) target_hmtx)
       (merged_cmap inter_tables) target_tables"

definition merge_inter_font ::
  "'o env \<Rightarrow> 'o font \<Rightarrow> 'o font \<Rightarrow> int \<Rightarrow> py_error + 'o font" where
  "merge_inter_font E target_font inter_font replace_punc =
     (if has_table inter_font ''fvar'' then
        Inl (ValueError (''Inter font must be a static font without '' @ [CHR 0x27] @ ''fvar''
               @ [CHR 0x27] @ '' table.''))
      else
     (case glyf inter_font of
        None \<Rightarrow> Inl (KeyError ''glyf'')
      | Some inter_glyf \<Rightarrow>
     (case hmtx inter_font of
        None \<Rightarrow> Inl (KeyError ''hmtx'')
      | Some inter_hmtx \<Rightarrow>
     (case glyf target_font of
        None \<Rightarrow> Inl (KeyError ''glyf'')
      | Some target_glyf \<Rightarrow>
     (case hmtx target_font of
        None \<Rightarrow> Inl (KeyError ''hmtx'')
      | Some target_hmtx \<Rightarrow>
     (let inter_name_map = build_name_map (glyphOrder inter_font);
          font1 = target_font
            \<lparr>glyphOrder := glyphOrder target_font @
               map (\<lambda>g. merge_font_prefix @ g) (glyphOrder inter_font)\<rparr>
      in
      case merge_inter_font_gpos_table font1 inter_font inter_name_map of
        Inl e \<Rightarrow> Inl e
      | Inr font2 \<Rightarrow>
     (case foldE (copy_glyph E inter_glyf inter_hmtx) inter_name_map (target_glyf, target_hmtx) of
        Inl e \<Rightarrow> Inl e
      | Inr (gl, hm) \<Rightarrow>
     (case foldE (replace_punc_glyph E inter_name_map inter_glyf inter_hmtx)
             (inter_punc_map replace_punc) (font2\<lparr>glyf := Some gl, hmtx := Some hm\<rparr>) of
        Inl e \<Rightarrow> Inl e
      | Inr font4 \<Rightarrow>
     (case cmap_tables inter_font of
        None \<Rightarrow> Inl (KeyError ''cmap'')
      | Some inter_tables \<Rightarrow>
     (case cmap_tables font4 of
        None \<Rightarrow> Inl (KeyError ''cmap'')
      | Some target_tables \<Rightarrow>
     (case update_cmap inter_name_map hm inter_tables target_tables of
        Inl e \<Rightarrow> Inl e
      | Inr tables \<Rightarrow> Inr (font4\<lparr>cmap_tables := Some tables\<rparr>))))))))))))"

subsection \<open>build\_font\<close>

text \<open>
  The configuration holds the fonts themselves where the source holds their paths:
  \<open>input_font\<close> is \<^verbatim>\<open>TTFont(config.input_path)\<close> and \<open>merge_font\<close> is
  \<^verbatim>\<open>TTFont(config.merge_font_path)\<close> when the path is not \<^verbatim>\<open>None\<close>. The result is the font
  object that \<^verbatim>\<open>build_font\<close> hands to \<^verbatim>\<open>save\<close>.
\<close>

record 'o FontBuildConfig =
  input_font :: "'o font"
  cjk_width_adjust :: real
  apply_stylistic_set :: "string option"
  font_name :: string
  font_version :: string
  merge_font :: "'o font option"
  replace_punc :: int
  new_line_gap :: int

definition build_font :: "'o env \<Rightarrow> 'o FontBuildConfig \<Rightarrow> py_error + 'o font" where
  "build_font E config =
     (let static_font = input_font config in
      if has_table static_font ''cvar'' \<or> has_table static_font ''fvar''
         \<or> has_table static_font ''gvar''
      then Inl (ValueError ''Input font must be a static font.'')
      else
     (case (case apply_stylistic_set config of
              None \<Rightarrow> Inr static_font
            | Some tag \<Rightarrow> if tag = [] then Inr static_font
                          else apply_stylistic_sets E static_font tag) of
        Inl e \<Rightarrow> Inl e
      | Inr font1 \<Rightarrow>
     (case remove_stylistic_sets font1 of
        Inl e \<Rightarrow> Inl e
      | Inr font2 \<Rightarrow>
     (case remove_locl_feature (remove_font_tables font2) of
        Inl e \<Rightarrow> Inl e
      | Inr font4 \<Rightarrow>
     (case (case merge_font config of
              None \<Rightarrow> Inr font4
            | Some inter_font \<Rightarrow> merge_inter_font E font4 inter_font (replace_punc config)) of
        Inl e \<Rightarrow> Inl e
      | Inr font5 \<Rightarrow>
     (case process_glyphs E font5 (cjk_width_adjust config) of
        Inl e \<Rightarrow> Inl e
      | Inr (font6, processed, unprocessed) \<Rightarrow>
     (case set_font_parameter E font6 (font_name config) (font_version config) of
        Inl e \<Rightarrow> Inl e
      | Inr font7 \<Rightarrow>
          Inr (if new_line_gap config \<noteq> 0 then set_line_gap font7 (new_line_gap config)
               else font7))))))))"

section \<open>extract\_font.py\<close>

subsection \<open>decompose\_composites\<close>

definition decompose_glyph ::
  "'o env \<Rightarrow> string \<Rightarrow>
   (string, 'o glyph) dict \<times> (string, int \<times> int) dict option \<times> nat \<Rightarrow>
   py_error + (string, 'o glyph) dict \<times> (string, int \<times> int) dict option \<times> nat" where
  "decompose_glyph E glyph_name st =
     (case st of (gl, hm, count) \<Rightarrow>
      case map_of gl glyph_name of
        None \<Rightarrow> Inl (KeyError glyph_name)
      | Some g \<Rightarrow>
          if isComposite g then
            (let metrics = (case hm of None \<Rightarrow> None | Some h \<Rightarrow> map_of h glyph_name) in
             case decompose E gl glyph_name of
               Inl e \<Rightarrow> Inl e
             | Inr new_glyph \<Rightarrow>
                 Inr (AList.update glyph_name (recalcBounds E new_glyph) gl,
                      (case metrics of
                         None \<Rightarrow> hm
                       | Some mt \<Rightarrow> map_option (AList.update glyph_name mt) hm),
                      count + 1))
          else Inr st)"

definition decompose_composites :: "'o env \<Rightarrow> 'o font \<Rightarrow> py_error + 'o font \<times> nat" where
  "decompose_composites E font =
     (case glyf font of
        None \<Rightarrow> Inr (font, 0)
      | Some gl \<Rightarrow>
     (case getGlyphSet E font of
        Some e \<Rightarrow> Inl e
      | None \<Rightarrow>
     (case foldE (decompose_glyph E) (glyphOrder font) (gl, hmtx font, 0) of
        Inl e \<Rightarrow> Inl e
      | Inr (gl', hm', count) \<Rightarrow> Inr (font\<lparr>glyf := Some gl', hmtx := hm'\<rparr>, count))))"

subsection \<open>apply\_glyph\_transform\<close>

text \<open>
  One pass of the loop over the glyph order. The test for a composite glyph comes first;
  then, with \<^verbatim>\<open>cjk_mode_transform\<close>, a glyph is skipped unless it has an \<^verbatim>\<open>hmtx\<close>
  entry with advance width 1000. The new metrics of the other mode are
  \<^verbatim>\<open>int(round(advanceWidth * xScale))\<close> and \<^verbatim>\<open>int(round(lsb * xScale + 0 * ySkew))\<close>.
\<close>

definition still_composite :: "string \<Rightarrow> string" where
  \<comment> \<open>\<^verbatim>\<open>f"Glyph '{glyph_name}' is still composite; decompose before applying transform."\<close>\<close>
  "still_composite glyph_name =
     ''Glyph '' @ [CHR 0x27] @ glyph_name @ [CHR 0x27]
       @ '' is still composite; decompose before applying transform.''"

definition transform_glyph ::
  "'o env \<Rightarrow> transform \<Rightarrow> bool \<Rightarrow> string \<Rightarrow>
   (string, 'o glyph) dict \<times> (string, int \<times> int) dict option \<times> nat \<Rightarrow>
   py_error + (string, 'o glyph) dict \<times> (string, int \<times> int) dict option \<times> nat" where
  "transform_glyph E t cjk_mode_transform glyph_name st =
     (case st of (gl, hm, count) \<Rightarrow>
      case map_of gl glyph_name of
        None \<Rightarrow> Inl (KeyError glyph_name)
      | Some g \<Rightarrow>
          if isComposite g then Inl (ValueError (still_composite glyph_name))
          else if cjk_mode_transform \<and>
                  (case hm of
                     None \<Rightarrow> True
                   | Some h \<Rightarrow> (case map_of h glyph_name of
                                  None \<Rightarrow> True
                                | Some (advanceWidth, lsb) \<Rightarrow> advanceWidth \<noteq> 1000))
          then Inr st
          else
            (let gl' = (if 0 < numberOfContours g then
                          AList.update glyph_name
                            (if cjk_mode_transform then pen E (Some t) g
                             else recalcBounds E (pen E (Some t) g)) gl
                        else gl);
                 hm' = (if cjk_mode_transform then hm
                        else (case hm of
                                None \<Rightarrow> None
                              | Some h \<Rightarrow>
                                  (case map_of h glyph_name of
                                     None \<Rightarrow> hm
                                   | Some (advanceWidth, lsb) \<Rightarrow>
                                       Some (AList.update glyph_name
                                         (py_round (fround E (of_int advanceWidth * xx t)),
                                          py_round (fround E (fround E (of_int lsb * xx t) + fround E (0 * xy t))))
                                         h))))
             in Inr (gl', hm', count + 1)))"

definition apply_glyph_transform ::
  "'o env \<Rightarrow> 'o font \<Rightarrow> transform \<Rightarrow> bool \<Rightarrow> py_error + 'o font \<times> nat" where
  "apply_glyph_transform E font t cjk_mode_transform =
     (case glyf font of
        None \<Rightarrow> Inr (font, 0)
      | Some gl \<Rightarrow>
     (case getGlyphSet E font of
        Some e \<Rightarrow> Inl e
      | None \<Rightarrow>
     (case foldE (transform_glyph E t cjk_mode_transform) (glyphOrder font) (gl, hmtx font, 0) of
        Inl e \<Rightarrow> Inl e
      | Inr (gl', hm', count) \<Rightarrow> Inr (font\<lparr>glyf := Some gl', hmtx := hm'\<rparr>, count))))"

subsection \<open>extract\_font\<close>

text \<open>
  \<open>font\<close> is \<^verbatim>\<open>TTFont(input_path)\<close>; the result is the font handed to \<^verbatim>\<open>save\<close>, with the
  warning lines printed on the way. \<^verbatim>\<open>not axis_settings\<close> holds for \<^verbatim>\<open>None\<close> and for
  the empty dict.
\<close>

definition no_axis_settings :: "(string, real) dict option \<Rightarrow> bool" where
  "no_axis_settings axis_settings = (axis_settings = None \<or> axis_settings = Some [])"

definition instantiate_step ::
  "'o env \<Rightarrow> 'o font \<Rightarrow> (string, real) dict option \<Rightarrow> py_error + 'o font \<times> string list" where
  \<comment> \<open>the \<^verbatim>\<open>if 'fvar' in font: ... else: ...\<close> statement of \<^verbatim>\<open>extract_font\<close>\<close>
  "instantiate_step E font axis_settings =
     (if has_table font ''fvar'' then
        (case axis_settings of
           None \<Rightarrow> Inl (ValueError ''Font is variable but no axis settings provided.'')
         | Some axes \<Rightarrow>
             if axes = [] then Inl (ValueError ''Font is variable but no axis settings provided.'')
             else (case instantiateVariableFont E font axes of
                     Inl e \<Rightarrow> Inl e
                   | Inr font' \<Rightarrow>
                       (case removeOverlaps E font' of
                          Inl e \<Rightarrow> Inl e
                        | Inr font'' \<Rightarrow> Inr (font'', []))))
      else Inr (font,
        if no_axis_settings axis_settings then []
        else [''Warning: Axis settings provided but font is not variable; ignoring axis settings.'']))"

definition transform_step ::
  "'o env \<Rightarrow> 'o font \<Rightarrow> transform option \<Rightarrow> bool \<Rightarrow> py_error + 'o font" where
  \<comment> \<open>the \<^verbatim>\<open>if transform is not None:\<close> statement of \<^verbatim>\<open>extract_font\<close>\<close>
  "transform_step E font t cjk_mode_transform =
     (case t of
        None \<Rightarrow> Inr font
      | Some tr \<Rightarrow>
          (case apply_glyph_transform E font tr cjk_mode_transform of
             Inl e \<Rightarrow> Inl e
           | Inr (font', count) \<Rightarrow>
               if \<not> cjk_mode_transform then apply_gpos_transform E font' tr else Inr font'))"

definition extract_font ::
  "'o env \<Rightarrow> 'o font \<Rightarrow> (string, real) dict option \<Rightarrow> transform option \<Rightarrow> bool \<Rightarrow> bool \<Rightarrow>
   py_error + 'o font \<times> string list" where
  "extract_font E font axis_settings t cjk_mode_transform skip_decomposition =
     (case instantiate_step E font axis_settings of
        Inl e \<Rightarrow> Inl e
      | Inr (font1, warnings) \<Rightarrow>
     (case (if skip_decomposition then Inr font1
            else (case decompose_composites E font1 of
                    Inl e \<Rightarrow> Inl e
                  | Inr (font', decomposed) \<Rightarrow> Inr font')) of
        Inl e \<Rightarrow> Inl e
      | Inr font2 \<Rightarrow>
     (case transform_step E font2 t cjk_mode_transform of
        Inl e \<Rightarrow> Inl e
      | Inr font3 \<Rightarrow> Inr (font3, warnings))))"

section \<open>Reading a font\<close>

definition advance_width :: "'o font \<Rightarrow> string \<Rightarrow> int option" where
  \<comment> \<open>the advance width \<^verbatim>\<open>font['hmtx'][name][0]\<close>, when the font has it\<close>
  "advance_width font n =
     (case hmtx font of None \<Rightarrow> None | Some h \<Rightarrow> map_option fst (map_of h n))"

text \<open>
  What can be read off a positioning table: its lookups, feature records and script
  records, and every string that can be reached in the subtables of its lookups (in a
  positioning subtable the strings are glyph names).
\<close>

fun strings_of :: "pyval \<Rightarrow> string list" where
  "strings_of (PStr s) = [s]"
| "strings_of (PList xs) = concat (map strings_of xs)"
| "strings_of (PTuple xs) = concat (map strings_of xs)"
| "strings_of (PDict d) = map fst d"
| "strings_of (PObj a) = concat (map (\<lambda>av. strings_of (snd av)) a)"
| "strings_of v = []"

definition gpos_lookups :: "'o font \<Rightarrow> pyval lookup list" where
  "gpos_lookups font =
     (case GPOS font of
        None \<Rightarrow> []
      | Some t \<Rightarrow> (case LookupList t of None \<Rightarrow> [] | Some ll \<Rightarrow> Lookup ll))"

definition gpos_features :: "'o font \<Rightarrow> feature_record list" where
  "gpos_features font =
     (case GPOS font of
        None \<Rightarrow> []
      | Some t \<Rightarrow> (case FeatureList t of None \<Rightarrow> [] | Some fts \<Rightarrow> FeatureRecord fts))"

definition gpos_scripts :: "'o font \<Rightarrow> script_record list" where
  "gpos_scripts font =
     (case GPOS font of
        None \<Rightarrow> []
      | Some t \<Rightarrow> (case ScriptList t of None \<Rightarrow> [] | Some sl \<Rightarrow> ScriptRecord sl))"

definition gpos_strings :: "'o font \<Rightarrow> string list" where
  "gpos_strings font = concat (map (\<lambda>l. concat (map strings_of (SubTable l))) (gpos_lookups font))"

definition gsub_features :: "'o font \<Rightarrow> feature_record list" where
  "gsub_features font =
     (case GSUB font of
        None \<Rightarrow> []
      | Some t \<Rightarrow> (case FeatureList t of None \<Rightarrow> [] | Some fts \<Rightarrow> FeatureRecord fts))"

definition gsub_scripts :: "'o font \<Rightarrow> script_record list" where
  "gsub_scripts font =
     (case GSUB font of
        None \<Rightarrow> []
      | Some t \<Rightarrow> (case ScriptList t of None \<Rightarrow> [] | Some sl \<Rightarrow> ScriptRecord sl))"

definition feature_index_lists :: "script_record list \<Rightarrow> nat list list" where
  \<comment> \<open>every \<^verbatim>\<open>FeatureIndex\<close> list of a script list: per script, the default language system's
      (if there is one), then those of the language-system records\<close>
  "feature_index_lists srs =
     concat (map (\<lambda>sr.
       (case DefaultLangSys (Script sr) of None \<Rightarrow> [] | Some ls \<Rightarrow> [FeatureIndex ls]) @
       map (\<lambda>lsr. FeatureIndex (LangSys lsr)) (LangSysRecord (Script sr))) srs)"

definition cmap_of :: "'o font \<Rightarrow> cmap_subtable list" where
  "cmap_of font = (case cmap_tables font of None \<Rightarrow> [] | Some tables \<Rightarrow> tables)"

definition writable :: "cmap_subtable \<Rightarrow> nat \<Rightarrow> bool" where
  \<comment> \<open>the tables and code points at which \<open>write_cmap\<close> writes\<close>
  "writable t cp = (isUnicode t \<and> (format t = 4 \<and> cp \<le> 0xFFFF \<or> format t = 12))"

section \<open>Example fonts\<close>

text \<open>
  An environment for the examples: outlines are lists of points, the pen applies the
  transform to every point as \<^verbatim>\<open>Transform.transformPoint\<close> does, float arithmetic is
  exact (the examples use numbers on which it is), and the library calls succeed.
\<close>

definition example_env :: "(real \<times> real) list env" where
  "example_env =
     \<lparr>pen = (\<lambda>t g. case t of
                None \<Rightarrow> g
              | Some tr \<Rightarrow> g\<lparr>outline :=
                  map (\<lambda>p. (xx tr * fst p + yx tr * snd p + dx tr,
                             xy tr * fst p + yy tr * snd p + dy tr)) (outline g)\<rparr>),
      getGlyphSet = (\<lambda>font. None),
      recalcBounds = (\<lambda>g. g),
      fround = (\<lambda>x. x),
      encode = (\<lambda>s e. Inr s),
      decompose = (\<lambda>gl n. case map_of gl n of
                      None \<Rightarrow> Inl (KeyError n)
                    | Some g \<Rightarrow> Inr (g\<lparr>isComposite := False\<rparr>)),
      instantiateVariableFont = (\<lambda>font axes. Inr font),
      removeOverlaps = (\<lambda>font. Inr font),
      apply_gpos_transform = (\<lambda>font t. Inr font)\<rparr>"

definition square :: "(real \<times> real) list glyph" where
  "square = \<lparr>isComposite = False, numberOfContours = 1, bounds = Some (100, 0, 900, 800),
             outline = [(100, 0), (900, 0), (900, 800), (100, 800)]\<rparr>"

definition half :: transform where
  \<comment> \<open>the transform \<^verbatim>\<open>0.5,0,0,0.5,0,16\<close>\<close>
  "half = \<lparr>xx = 1 / 2, xy = 0, yx = 0, yy = 1 / 2, dx = 0, dy = 16\<rparr>"

definition font_A :: "(real \<times> real) list font" where
  "font_A =
     \<lparr>glyphOrder = [''A'', ''inter_B'', ''C''],
      glyf = Some [(''A'', square), (''inter_B'', square), (''C'', square)],
      hmtx = Some [(''A'', (1000, 100)), (''inter_B'', (1000, 100)), (''C'', (900, 50))],
      cmap_tables = Some [],
      GSUB = None, GPOS = None, name_table = Some [], hhea_lineGap = None, OS2 = None,
      other_tables = [], inter_gpos_merged = False\<rparr>"

definition font_var :: "(real \<times> real) list font" where
  \<comment> \<open>a variable font\<close>
  "font_var = font_A\<lparr>other_tables := [''fvar'', ''gvar'']\<rparr>"

definition font_composite :: "(real \<times> real) list font" where
  \<comment> \<open>a font whose second glyph is composite and 900 units wide\<close>
  "font_composite =
     \<lparr>glyphOrder = [''A'', ''comp'', ''C''],
      glyf = Some [(''A'', square),
                   (''comp'', square\<lparr>isComposite := True, numberOfContours := -1\<rparr>),
                   (''C'', square)],
      hmtx = Some [(''A'', (1000, 100)), (''comp'', (900, 100)), (''C'', (900, 50))],
      cmap_tables = Some [],
      GSUB = None, GPOS = None, name_table = Some [], hhea_lineGap = None, OS2 = None,
      other_tables = [], inter_gpos_merged = False\<rparr>"

text \<open>
  A donor font with a pair adjustment (format 1), a contextual positioning subtable
  (format 1, whose rule lists its input glyphs by name) and a class-based pair adjustment;
  and a primary font with full-width glyphs, a positioning table and a substitution table
  of its own.
\<close>

definition pair_pos :: pyval where
  "pair_pos = PObj
     [(''Coverage'', PObj [(''glyphs'', PList [PStr ''A''])]),
      (''Format'', PInt 1),
      (''PairSet'', PList [PObj
         [(''PairValueRecord'', PList [PObj
            [(''SecondGlyph'', PStr ''V''),
             (''Value1'', PObj [(''XAdvance'', PInt (-50))]),
             (''Value2'', PNone)]])]])]"

definition context_pos :: pyval where
  "context_pos = PObj
     [(''Coverage'', PObj [(''glyphs'', PList [PStr ''A''])]),
      (''Format'', PInt 1),
      (''PosRuleSet'', PList [PObj
         [(''PosRule'', PList [PObj
            [(''GlyphCount'', PInt 2),
             (''Input'', PList [PStr ''V'']),
             (''PosCount'', PInt 1),
             (''PosLookupRecord'', PList [PObj
                [(''LookupListIndex'', PInt 0), (''SequenceIndex'', PInt 0)]])]])]])]"

definition class_pair_pos :: pyval where
  "class_pair_pos = PObj
     [(''ClassDef1'', PObj [(''classDefs'', PDict [(''A'', 1)])]),
      (''ClassDef2'', PObj [(''classDefs'', PDict [(''V'', 1)])]),
      (''Coverage'', PObj [(''glyphs'', PList [PStr ''A''])]),
      (''Format'', PInt 2)]"

definition single_pos :: pyval where
  "single_pos = PObj
     [(''Coverage'', PObj [(''glyphs'', PList [PStr ''uniFF01''])]),
      (''Format'', PInt 1),
      (''Value'', PObj [(''XPlacement'', PInt (-100))])]"

definition font_inter :: "(real \<times> real) list font" where
  "font_inter =
     \<lparr>glyphOrder = [''.notdef'', ''A'', ''V'', ''exclam'', ''question''],
      glyf = Some [(''.notdef'', square), (''A'', square), (''V'', square), (''exclam'', square),
                   (''question'', square)],
      hmtx = Some [(''.notdef'', (500, 50)), (''A'', (600, 20)), (''V'', (600, 10)),
                   (''exclam'', (300, 100)), (''question'', (500, 40))],
      cmap_tables = Some
        [\<lparr>format = 4, platformID = 3, platEncID = 1,
          cmap = [(0x1F, ''.notdef''), (0x21, ''exclam''), (0x3F, ''question''), (0x41, ''A''),
                  (0x56, ''V'')]\<rparr>],
      GSUB = None,
      GPOS = Some
        \<lparr>ScriptList = Some \<lparr>ScriptCount = 2, ScriptRecord =
           [\<lparr>ScriptTag = ''DFLT'', Script =
               \<lparr>DefaultLangSys = Some \<lparr>ReqFeatureIndex = 65535, FeatureIndex = [0]\<rparr>,
                LangSysRecord = []\<rparr>\<rparr>,
            \<lparr>ScriptTag = ''latn'', Script =
               \<lparr>DefaultLangSys = None,
                LangSysRecord = [\<lparr>LangSysTag = ''TRK '', LangSys =
                   \<lparr>ReqFeatureIndex = 65535, FeatureIndex = [0]\<rparr>\<rparr>]\<rparr>\<rparr>]\<rparr>,
         FeatureList = Some \<lparr>FeatureCount = 1, FeatureRecord =
           [\<lparr>FeatureTag = ''kern'', Feature = \<lparr>LookupListIndex = [0, 1, 2]\<rparr>\<rparr>]\<rparr>,
         LookupList = Some \<lparr>LookupCount = 3, Lookup =
           [\<lparr>LookupType = 2, SubTable = [pair_pos]\<rparr>,
            \<lparr>LookupType = 2, SubTable = [class_pair_pos]\<rparr>,
            \<lparr>LookupType = 7, SubTable = [context_pos]\<rparr>]\<rparr>\<rparr>,
      name_table = Some [], hhea_lineGap = None, OS2 = None,
      other_tables = [], inter_gpos_merged = False\<rparr>"

definition font_cjk :: "(real \<times> real) list font" where
  "font_cjk =
     \<lparr>glyphOrder = [''.notdef'', ''uni4E00'', ''uniFF01'', ''a'', ''wide''],
      glyf = Some [(''.notdef'', square), (''uni4E00'', square), (''uniFF01'', square),
                   (''a'', square), (''wide'', square)],
      hmtx = Some [(''.notdef'', (1000, 100)), (''uni4E00'', (1000, 100)),
                   (''uniFF01'', (1000, 100)), (''a'', (500, 40)), (''wide'', (1200, 100))],
      cmap_tables = Some
        [\<lparr>format = 4, platformID = 3, platEncID = 1,
          cmap = [(0x21, ''uniFF01''), (0x41, ''a''), (0x56, ''wide''), (0x4E00, ''uni4E00''), (0xFF01, ''uniFF01'')]\<rparr>,
         \<lparr>format = 6, platformID = 0, platEncID = 3,
          cmap = [(0x41, ''a'')]\<rparr>,
         \<lparr>format = 12, platformID = 3, platEncID = 10,
          cmap = [(0x41, ''a''), (0x4E00, ''uni4E00'')]\<rparr>],
      GSUB = Some
        \<lparr>ScriptList = Some \<lparr>ScriptCount = 1, ScriptRecord =
           [\<lparr>ScriptTag = ''hani'', Script =
               \<lparr>DefaultLangSys = Some \<lparr>ReqFeatureIndex = 65535, FeatureIndex = [0, 1, 2]\<rparr>,
                LangSysRecord = []\<rparr>\<rparr>]\<rparr>,
         FeatureList = Some \<lparr>FeatureCount = 3, FeatureRecord =
           [\<lparr>FeatureTag = ''ss01'', Feature = \<lparr>LookupListIndex = [0]\<rparr>\<rparr>,
            \<lparr>FeatureTag = ''liga'', Feature = \<lparr>LookupListIndex = [1]\<rparr>\<rparr>,
            \<lparr>FeatureTag = ''vert'', Feature = \<lparr>LookupListIndex = [1]\<rparr>\<rparr>]\<rparr>,
         LookupList = Some \<lparr>LookupCount = 2, Lookup =
           [\<lparr>LookupType = 1, SubTable = [SingleSubst [(''uni4E00'', ''uniFF01'')]]\<rparr>,
            \<lparr>LookupType = 4, SubTable = [OtherSubst]\<rparr>]\<rparr>\<rparr>,
      GPOS = Some
        \<lparr>ScriptList = Some \<lparr>ScriptCount = 1, ScriptRecord =
           [\<lparr>ScriptTag = ''hani'', Script =
               \<lparr>DefaultLangSys = Some \<lparr>ReqFeatureIndex = 65535, FeatureIndex = [0]\<rparr>,
                LangSysRecord = []\<rparr>\<rparr>]\<rparr>,
         FeatureList = Some \<lparr>FeatureCount = 1, FeatureRecord =
           [\<lparr>FeatureTag = ''palt'', Feature = \<lparr>LookupListIndex = [0]\<rparr>\<rparr>]\<rparr>,
         LookupList = Some \<lparr>LookupCount = 1, Lookup =
           [\<lparr>LookupType = 1, SubTable = [single_pos]\<rparr>]\<rparr>\<rparr>,
      name_table = Some [\<lparr>nameID = 1, encoding = ''utf_16_be'', str = ''Chiron Hei''\<rparr>,
                         \<lparr>nameID = 17, encoding = ''utf_16_be'', str = ''Light''\<rparr>,
                         \<lparr>nameID = 6, encoding = ''utf_16_be'', str = ''ChironHei-Light''\<rparr>],
      hhea_lineGap = Some 0,
      OS2 = Some \<lparr>sTypoLineGap = 0, usWinAscent = 1000, usWinDescent = 300\<rparr>,
      other_tables = [''STAT'', ''cvt '', ''head'', ''post''], inter_gpos_merged = False\<rparr>"

definition example_config :: "(real \<times> real) list FontBuildConfig" where
  "example_config =
     \<lparr>input_font = font_cjk, cjk_width_adjust = 1 / 8, apply_stylistic_set = Some ''ss01'',
      font_name = ''Sub Hei'', font_version = ''1.0'', merge_font = Some font_inter,
      replace_punc = 1, new_line_gap = 100\<rparr>"

section \<open>The width adjustment as the specification words it\<close>

definition spec_full_width_adjustment :: "int \<Rightarrow> int \<Rightarrow> real \<Rightarrow> int \<times> int" where
  \<comment> \<open>\<open>new_width = old_width + 2 * floor(old_width * fraction / 2)\<close> and
      \<open>new_lsb = old_lsb + floor(expand / 2)\<close> with \<open>expand = floor(old_width * fraction / 2)\<close>\<close>
  "spec_full_width_adjustment old_width old_lsb fraction =
     (let expand = \<lfloor>of_int old_width * fraction / 2\<rfloor>
      in (old_width + 2 * expand, old_lsb + \<lfloor>(of_int expand :: real) / 2\<rfloor>))"

section \<open>Width adjustment (process\_glyphs)\<close>

lemma process_glyphs_loop_metrics:
  assumes "process_glyphs_loop E pct gs (gl, hm, p, u) = Inr (gl', hm', p', u')"
      and "distinct gs"
      and "map_of hm g = Some (w, l)"
  shows "map_of hm' g =
           Some (if g \<in> set gs \<and> 1000 \<le> w \<and> \<not> startswith g merge_font_prefix
                 then (w + 2 * expand_of E w pct, l + expand_of E w pct) else (w, l))"
  using assms
proof (induction gs arbitrary: gl hm p u w l)
  case Nil
  then show ?case by simp
next
  case (Cons x gs)
  show ?case
  proof (cases "x = g")
    case True
    with Cons.prems have notin: "g \<notin> set gs" by simp
    show ?thesis
    proof (cases "1000 \<le> w \<and> \<not> startswith g merge_font_prefix")
      case big: True
      from Cons.prems(1) True big Cons.prems(3)
      obtain gl1 where
        step: "process_glyphs_loop E pct gs
                 (gl1, AList.update g (w + expand_of E w pct * 2, l + expand_of E w pct) hm,
                  insert g p, u) = Inr (gl', hm', p', u')"
        by (auto simp: Let_def split: option.splits)
      have "map_of (AList.update g (w + expand_of E w pct * 2, l + expand_of E w pct) hm) g
            = Some (w + expand_of E w pct * 2, l + expand_of E w pct)"
        by (simp add: update_conv')
      from Cons.IH[OF step _ this] Cons.prems(2) notin True big
      show ?thesis by (simp add: mult.commute)
    next
      case small: False
      from Cons.prems(1) True small Cons.prems(3)
      have step: "process_glyphs_loop E pct gs (gl, hm, p, insert g u) = Inr (gl', hm', p', u')"
        by (auto simp: Let_def split: option.splits if_splits)
      from Cons.IH[OF step _ Cons.prems(3)] Cons.prems(2) notin True small
      show ?thesis by auto
    qed
  next
    case False
    from Cons.prems(1) obtain gl1 hm1 p1 u1 where
      step: "process_glyphs_loop E pct gs (gl1, hm1, p1, u1) = Inr (gl', hm', p', u')"
      and keep: "map_of hm1 g = map_of hm g"
      using False
      by (auto simp: Let_def update_conv' split: option.splits if_splits prod.splits)
    from Cons.IH[OF step _ keep[unfolded Cons.prems(3)]] Cons.prems(2) False
    show ?thesis by auto
  qed
qed

lemma expand_of_exact:
  assumes "fround E = (\<lambda>x. x)" and "0 \<le> pct" and "0 \<le> w"
  shows "expand_of E w pct = \<lfloor>of_int w * pct / 2\<rfloor>"
  using assms by (simp add: expand_of_def py_int_def)

text \<open>
  C4, as amended. After \<^verbatim>\<open>process_glyphs\<close> on a font whose glyph order has no name
  twice, a glyph of the glyph order with advance width at least 1000 and a name outside the
  merge namespace has advance width \<open>width + 2 * expand\<close> and left side-bearing
  \<open>lsb + expand\<close> (the whole of \<open>expand\<close>, not half of it), where \<open>expand\<close> is
  \<^verbatim>\<open>int(width * fraction / 2)\<close>: the float product and quotient, truncated toward zero,
  which is \<open>floor(width * fraction / 2)\<close> when the arithmetic is exact and the fraction is
  not negative. Every other glyph keeps its metrics.
\<close>

theorem process_glyphs_metrics:
  assumes "process_glyphs E font pct = Inr (font', processed, unprocessed)"
      and "distinct (glyphOrder font)"
      and "hmtx font = Some hm"
      and "map_of hm g = Some (w, l)"
  shows "(\<exists>hm'. hmtx font' = Some hm' \<and>
            map_of hm' g =
              Some (if g \<in> set (glyphOrder font) \<and> 1000 \<le> w \<and> \<not> startswith g merge_font_prefix
                    then (w + 2 * expand_of E w pct, l + expand_of E w pct) else (w, l)))
         \<and> expand_of E w pct = py_int (fround E (fround E (of_int w * pct) / 2))
         \<and> (fround E = (\<lambda>x. x) \<longrightarrow> 0 \<le> pct \<longrightarrow> 0 \<le> w \<longrightarrow>
              expand_of E w pct = \<lfloor>of_int w * pct / 2\<rfloor>)"
proof -
  from assms(1,3) obtain gl gl' hm' where
    loop: "process_glyphs_loop E pct (glyphOrder font) (gl, hm, {}, {})
             = Inr (gl', hm', processed, unprocessed)"
    and out: "hmtx font' = Some hm'"
    by (auto simp: process_glyphs_def split: option.splits sum.splits)
  from process_glyphs_loop_metrics[OF loop assms(2) assms(4)] out
  show ?thesis by (auto simp: expand_of_exact) (simp add: expand_of_def)
qed

theorem process_glyphs_metrics_witness:
  "\<exists>font' processed unprocessed hm'.
     process_glyphs example_env font_A (1 / 2) = Inr (font', processed, unprocessed) \<and>
     hmtx font' = Some hm' \<and> map_of hm' ''A'' = Some (1500, 350) \<and>
     map_of hm' ''inter_B'' = Some (1000, 100) \<and> map_of hm' ''C'' = Some (900, 50)"
proof -
  have "\<exists>r. process_glyphs example_env font_A (1 / 2) = Inr r"
    by (simp add: process_glyphs_def font_A_def example_env_def startswith_def
        merge_font_prefix_def expand_of_def py_int_def Let_def)
  then obtain font' processed unprocessed where
    run: "process_glyphs example_env font_A (1 / 2) = Inr (font', processed, unprocessed)"
    by (metis prod_cases3)
  have d: "distinct (glyphOrder font_A)" by (simp add: font_A_def)
  have h: "hmtx font_A = Some [(''A'', (1000, 100)), (''inter_B'', (1000, 100)), (''C'', (900, 50))]"
    by (simp add: font_A_def)
  have e: "expand_of example_env 1000 (1 / 2) = 250"
    by (simp add: expand_of_def py_int_def example_env_def)
  have a: "map_of [(''A'', (1000::int, 100::int)), (''inter_B'', (1000, 100)), (''C'', (900, 50))] ''A''
             = Some (1000, 100)" by simp
  have b: "map_of [(''A'', (1000::int, 100::int)), (''inter_B'', (1000, 100)), (''C'', (900, 50))] ''inter_B''
             = Some (1000, 100)" by simp
  have c: "map_of [(''A'', (1000::int, 100::int)), (''inter_B'', (1000, 100)), (''C'', (900, 50))] ''C''
             = Some (900, 50)" by simp
  from process_glyphs_metrics[OF run d h a] process_glyphs_metrics[OF run d h b]
    process_glyphs_metrics[OF run d h c] e run
  show ?thesis
    by (auto simp: font_A_def startswith_def merge_font_prefix_def)
qed

text \<open>
  The claim as the specification has it fails at a glyph 1000 units wide with left
  side-bearing 100: with the fraction \<open>1/2\<close> the code moves the side-bearing by the whole
  of \<open>expand\<close> (to 350, where the specification has 225), and with the fraction \<open>-1/16\<close>
  \<^verbatim>\<open>int\<close> truncates \<open>-31.25\<close> to \<open>-31\<close>, where the floor is \<open>-32\<close>.
\<close>

theorem process_glyphs_lsb_counterexample:
  "map_sum id (\<lambda>r. map_option (\<lambda>hm. map_of hm ''A'') (hmtx (fst r)))
     (process_glyphs example_env font_A (1 / 2)) = Inr (Some (Some (1500, 350)))
   \<and> spec_full_width_adjustment 1000 100 (1 / 2) = (1500, 225)
   \<and> map_sum id (\<lambda>r. map_option (\<lambda>hm. map_of hm ''A'') (hmtx (fst r)))
       (process_glyphs example_env font_A (- 1 / 16)) = Inr (Some (Some (938, 69)))
   \<and> spec_full_width_adjustment 1000 100 (- 1 / 16) = (936, 84)"
  by (simp add: process_glyphs_def font_A_def example_env_def startswith_def
      merge_font_prefix_def expand_of_def py_int_def Let_def spec_full_width_adjustment_def)

section \<open>Static instancing and the affine transform (extract\_font.py)\<close>

lemma foldE_append:
  "foldE f (xs @ ys) s = (case foldE f xs s of Inl e \<Rightarrow> Inl e | Inr s' \<Rightarrow> foldE f ys s')"
  by (induction xs arbitrary: s) (auto split: sum.splits)

text \<open>
  C8. \<^verbatim>\<open>extract_font\<close> on a variable font (one with an \<^verbatim>\<open>fvar\<close> table) without axis
  settings raises \<^verbatim>\<open>ValueError\<close>, whatever the other arguments. On a font that is not
  variable, axis settings make the instancing step return the font as it is with one
  warning line, and the whole run ends as it does without axis settings: with the same
  error, or with the same font and the warning.
\<close>

theorem instancing_axis_errors:
  "(has_table font ''fvar'' \<and> no_axis_settings axis_settings \<longrightarrow>
      extract_font E font axis_settings t cjk skip
        = Inl (ValueError ''Font is variable but no axis settings provided.''))
   \<and> (\<not> has_table font ''fvar'' \<and> \<not> no_axis_settings axis_settings \<longrightarrow>
      instantiate_step E font axis_settings
        = Inr (font, [''Warning: Axis settings provided but font is not variable; ignoring axis settings.''])
      \<and> extract_font E font axis_settings t cjk skip
        = (case extract_font E font None t cjk skip of
             Inl e \<Rightarrow> Inl e
           | Inr (font', warnings) \<Rightarrow>
               Inr (font', [''Warning: Axis settings provided but font is not variable; ignoring axis settings.''])))"
  by (auto simp: extract_font_def instantiate_step_def no_axis_settings_def
      split: option.splits sum.splits)

theorem instancing_axis_errors_witness:
  "extract_font example_env font_var None (Some half) True False
     = Inl (ValueError ''Font is variable but no axis settings provided.'')
   \<and> (\<exists>font'. extract_font example_env font_A (Some [(''wght'', 400)]) (Some half) True False
        = Inr (font', [''Warning: Axis settings provided but font is not variable; ignoring axis settings.'']))"
proof -
  have v: "has_table font_var ''fvar'' \<and> no_axis_settings None"
    by (simp add: has_table_def font_var_def no_axis_settings_def)
  have s: "\<not> has_table font_A ''fvar'' \<and> \<not> no_axis_settings (Some [(''wght'', 400)])"
    by (simp add: has_table_def font_A_def no_axis_settings_def)
  have "\<exists>r. extract_font example_env font_A None (Some half) True False = Inr r"
    by (simp add: extract_font_def instantiate_step_def no_axis_settings_def has_table_def
        decompose_composites_def decompose_glyph_def transform_step_def
        apply_glyph_transform_def transform_glyph_def font_A_def example_env_def square_def
        half_def Let_def)
  then obtain font' warnings where
    "extract_font example_env font_A None (Some half) True False = Inr (font', warnings)"
    by (metis surj_pair)
  with v s instancing_axis_errors[of font_var None example_env "Some half" True False]
    instancing_axis_errors[of font_A "Some [(''wght'', 400)]" example_env "Some half" True False]
  show ?thesis by simp
qed

lemma transform_glyph_simple:
  assumes "map_of gl n = Some g" and "\<not> isComposite g"
  shows "\<exists>gl' hm' c'. transform_glyph E t cjk n (gl, hm, c) = Inr (gl', hm', c') \<and>
           (\<forall>k. k \<noteq> n \<longrightarrow> map_of gl' k = map_of gl k)"
  using assms
  by (auto simp: transform_glyph_def Let_def update_conv' split: option.splits prod.splits)

lemma foldE_transform_simple:
  assumes "distinct pre"
      and "list_all (\<lambda>n. \<exists>g. map_of gl n = Some g \<and> \<not> isComposite g) pre"
  shows "\<exists>gl' hm' c'. foldE (transform_glyph E t cjk) pre (gl, hm, c) = Inr (gl', hm', c') \<and>
           (\<forall>k. k \<notin> set pre \<longrightarrow> map_of gl' k = map_of gl k)"
  using assms
proof (induction pre arbitrary: gl hm c)
  case Nil
  then show ?case by simp
next
  case (Cons n pre)
  from Cons.prems obtain g where g: "map_of gl n = Some g" "\<not> isComposite g" by auto
  from transform_glyph_simple[OF g, of E t cjk hm c] obtain gl1 hm1 c1 where
    step: "transform_glyph E t cjk n (gl, hm, c) = Inr (gl1, hm1, c1)"
    and keep: "\<forall>k. k \<noteq> n \<longrightarrow> map_of gl1 k = map_of gl k" by blast
  from Cons.prems keep have
    "list_all (\<lambda>n. \<exists>g. map_of gl1 n = Some g \<and> \<not> isComposite g) pre"
    by (auto simp: list_all_iff)
  with Cons.IH[of gl1 hm1 c1] Cons.prems obtain gl' hm' c' where
    rest: "foldE (transform_glyph E t cjk) pre (gl1, hm1, c1) = Inr (gl', hm', c')"
    and keep': "\<forall>k. k \<notin> set pre \<longrightarrow> map_of gl' k = map_of gl1 k" by auto
  from step rest keep keep' show ?case by auto
qed

text \<open>
  C9. \<^verbatim>\<open>apply_glyph_transform\<close> tests for a composite glyph before it looks at the
  mode or the advance width. When the glyphs before the first composite glyph of the glyph
  order are simple glyphs of the \<^verbatim>\<open>glyf\<close> table (each named once), the call raises the
  \<^verbatim>\<open>ValueError\<close> for that glyph, in both modes and whatever the glyph's advance width
  is: nothing in the hypotheses mentions \<^verbatim>\<open>hmtx\<close>.
\<close>

theorem composite_raises_before_width_filter:
  assumes "glyf font = Some gl" and "getGlyphSet E font = None"
      and "glyphOrder font = pre @ glyph_name # post"
      and "distinct pre"
      and "list_all (\<lambda>n. \<exists>g. map_of gl n = Some g \<and> \<not> isComposite g) pre"
      and "map_of gl glyph_name = Some g" and "isComposite g"
  shows "apply_glyph_transform E font t cjk_mode_transform
           = Inl (ValueError (still_composite glyph_name))"
proof -
  from foldE_transform_simple[OF assms(4,5), of E t cjk_mode_transform "hmtx font" 0]
  obtain gl' hm' c' where
    pre: "foldE (transform_glyph E t cjk_mode_transform) pre (gl, hmtx font, 0) = Inr (gl', hm', c')"
    and keep: "\<forall>k. k \<notin> set pre \<longrightarrow> map_of gl' k = map_of gl k" by blast
  from assms(5,6,7) have "glyph_name \<notin> set pre" by (auto simp: list_all_iff)
  with keep assms(6) have "map_of gl' glyph_name = Some g" by simp
  with assms(7) have
    "transform_glyph E t cjk_mode_transform glyph_name (gl', hm', c')
       = Inl (ValueError (still_composite glyph_name))"
    by (simp add: transform_glyph_def)
  with pre assms(1,2,3) show ?thesis
    by (simp add: apply_glyph_transform_def foldE_append)
qed

theorem composite_raises_before_width_filter_witness:
  "advance_width font_composite ''comp'' = Some 900 \<and>
   apply_glyph_transform example_env font_composite half True
     = Inl (ValueError (still_composite ''comp''))"
proof -
  have "apply_glyph_transform example_env font_composite half True
          = Inl (ValueError (still_composite ''comp''))"
    by (rule composite_raises_before_width_filter[where pre = "[''A'']" and post = "[''C'']"
          and gl = "[(''A'', square), (''comp'', square\<lparr>isComposite := True, numberOfContours := -1\<rparr>),
                     (''C'', square)]"
          and g = "square\<lparr>isComposite := True, numberOfContours := -1\<rparr>"])
       (simp_all add: font_composite_def example_env_def square_def)
  then show ?thesis by (simp add: advance_width_def font_composite_def)
qed

lemma transform_glyph_cjk_frame:
  assumes "transform_glyph E t True n (gl, hm, c) = Inr (gl', hm', c')"
  shows "hm' = hm \<and>
         (\<forall>k. (case hm of None \<Rightarrow> None | Some h \<Rightarrow> map_option fst (map_of h k)) \<noteq> Some 1000
               \<longrightarrow> map_of gl' k = map_of gl k)"
  using assms
  by (auto simp: transform_glyph_def Let_def update_conv' split: option.splits prod.splits if_splits)

lemma foldE_transform_cjk_frame:
  assumes "foldE (transform_glyph E t True) ns (gl, hm, c) = Inr (gl', hm', c')"
  shows "hm' = hm \<and>
         (\<forall>k. (case hm of None \<Rightarrow> None | Some h \<Rightarrow> map_option fst (map_of h k)) \<noteq> Some 1000
               \<longrightarrow> map_of gl' k = map_of gl k)"
  using assms
proof (induction ns arbitrary: gl hm c)
  case Nil
  then show ?case by simp
next
  case (Cons n ns)
  from Cons.prems obtain gl1 hm1 c1 where
    step: "transform_glyph E t True n (gl, hm, c) = Inr (gl1, hm1, c1)"
    and rest: "foldE (transform_glyph E t True) ns (gl1, hm1, c1) = Inr (gl', hm', c')"
    by (auto split: sum.splits)
  from transform_glyph_cjk_frame[OF step] Cons.IH[OF rest] show ?case by simp
qed

text \<open>
  C7. When the transform statement of \<^verbatim>\<open>extract_font\<close> runs with
  \<^verbatim>\<open>cjk_mode_transform\<close> and returns, the font differs from the one it was given in its
  \<^verbatim>\<open>glyf\<close> table at most: the metrics, the positioning table and everything else are the
  same, and in the \<^verbatim>\<open>glyf\<close> table the entry of every glyph whose advance width is not
  1000 (900, say, or a glyph with no metrics) is the same.
\<close>

theorem cjk_mode_transform_frame:
  assumes "transform_step E font (Some t) True = Inr font'"
  shows "font' = font\<lparr>glyf := glyf font'\<rparr> \<and> GPOS font' = GPOS font \<and> hmtx font' = hmtx font
         \<and> (glyf font = None \<longrightarrow> glyf font' = None)
         \<and> (\<forall>gl. glyf font = Some gl \<longrightarrow>
               (\<exists>gl'. glyf font' = Some gl' \<and>
                  (\<forall>n. advance_width font n \<noteq> Some 1000 \<longrightarrow> map_of gl' n = map_of gl n)))"
proof (cases "glyf font")
  case None
  with assms show ?thesis
    by (auto simp: transform_step_def apply_glyph_transform_def)
next
  case (Some gl)
  with assms obtain gl' hm' c' where
    loop: "foldE (transform_glyph E t True) (glyphOrder font) (gl, hmtx font, 0) = Inr (gl', hm', c')"
    and out: "font' = font\<lparr>glyf := Some gl', hmtx := hm'\<rparr>"
    by (auto simp: transform_step_def apply_glyph_transform_def split: option.splits sum.splits)
  from foldE_transform_cjk_frame[OF loop] have
    hm: "hm' = hmtx font"
    and keep: "\<forall>k. advance_width font k \<noteq> Some 1000 \<longrightarrow> map_of gl' k = map_of gl k"
    by (simp_all add: advance_width_def)
  from out hm keep Some show ?thesis by simp
qed

theorem cjk_mode_transform_frame_witness:
  "\<exists>font' gl'. transform_step example_env font_A (Some half) True = Inr font' \<and>
     GPOS font' = GPOS font_A \<and> hmtx font' = hmtx font_A \<and> glyf font' = Some gl' \<and>
     advance_width font_A ''C'' = Some 900 \<and> map_of gl' ''C'' = Some square \<and>
     advance_width font_A ''A'' = Some 1000 \<and>
     map_of gl' ''A'' = Some (square\<lparr>outline := [(50, 16), (450, 16), (450, 416), (50, 416)]\<rparr>)"
proof -
  have a: "map_sum id (\<lambda>f. map_option (\<lambda>gl. map_of gl ''A'') (glyf f))
             (transform_step example_env font_A (Some half) True)
           = Inr (Some (Some (square\<lparr>outline := [(50, 16), (450, 16), (450, 416), (50, 416)]\<rparr>)))"
    by (simp add: transform_step_def apply_glyph_transform_def transform_glyph_def font_A_def
        example_env_def square_def half_def Let_def)
  then obtain font' where run: "transform_step example_env font_A (Some half) True = Inr font'"
    by (cases "transform_step example_env font_A (Some half) True") auto
  have w: "advance_width font_A ''C'' = Some 900" "advance_width font_A ''A'' = Some 1000"
    by (simp_all add: advance_width_def font_A_def)
  have g: "glyf font_A = Some [(''A'', square), (''inter_B'', square), (''C'', square)]"
    by (simp add: font_A_def)
  from cjk_mode_transform_frame[OF run] g w(1) obtain gl' where
    "GPOS font' = GPOS font_A" "hmtx font' = hmtx font_A" "glyf font' = Some gl'"
    "map_of gl' ''C'' = Some square"
    by auto
  with a run w show ?thesis by auto
qed

section \<open>The build pipeline (build\_font)\<close>

lemma foldE_invariant:
  assumes "foldE f xs s = Inr s'" and "P s" and "\<And>x a b. P a \<Longrightarrow> f x a = Inr b \<Longrightarrow> P b"
  shows "P s'"
  using assms
proof (induction xs arbitrary: s)
  case Nil
  then show ?case by simp
next
  case (Cons x xs)
  from Cons.prems(1) obtain s1 where s1: "f x s = Inr s1" "foldE f xs s1 = Inr s'"
    by (auto split: sum.splits)
  from Cons.prems(3)[OF Cons.prems(2) s1(1)] have "P s1" .
  from Cons.IH[OF s1(2) this Cons.prems(3)] show ?case by simp
qed

lemma other_tables_fold_del:
  "other_tables (fold del_table ts font) = filter (\<lambda>t. t \<notin> set ts) (other_tables font)"
proof (induction ts arbitrary: font)
  case Nil
  then show ?case by simp
next
  case (Cons t ts)
  have "filter (\<lambda>x. x \<notin> set ts) (removeAll t xs) = filter (\<lambda>x. x \<notin> set (t # ts)) xs"
    for xs :: "string list"
    by (induction xs) auto
  with Cons show ?case by (simp add: del_table_def)
qed

lemma GSUB_fold_del: "GSUB (fold del_table ts font) = GSUB font"
  by (induction ts arbitrary: font) (simp_all add: del_table_def)

lemma remove_font_tables_GSUB: "GSUB (remove_font_tables font) = None"
  by (simp add: remove_font_tables_def Let_def GSUB_fold_del)

lemma remove_font_tables_other:
  "other_tables (remove_font_tables font)
     = filter (\<lambda>t. t \<noteq> ''STAT'' \<and> \<not> startswith t ''cv'') (other_tables font)"
  by (auto simp: remove_font_tables_def Let_def other_tables_fold_del del_table_def has_table_def
      removeAll_filter_not_eq intro!: filter_cong)

lemma remove_locl_no_GSUB: "GSUB font = None \<Longrightarrow> remove_locl_feature font = Inr font"
  by (simp add: remove_locl_feature_def)

lemma merge_gpos_frame:
  assumes "merge_inter_font_gpos_table t i m = Inr t'"
  shows "GSUB t' = GSUB t \<and> other_tables t' = other_tables t \<and> inter_gpos_merged t'"
  using assms
  by (auto simp: merge_inter_font_gpos_table_def Let_def split: if_splits option.splits)

lemma replace_punc_glyph_frame:
  assumes "replace_punc_glyph E m ig ih ci font = Inr font'"
  shows "GSUB font' = GSUB font \<and> other_tables font' = other_tables font \<and>
         inter_gpos_merged font' = inter_gpos_merged font \<and> GPOS font' = GPOS font"
proof -
  from assms have "font' = font \<or> (\<exists>n g. font' = glyf_setitem n g font)"
    by (auto simp: replace_punc_glyph_def Let_def split: if_splits option.splits prod.splits)
  then show ?thesis by (auto simp: glyf_setitem_def)
qed

lemma merge_inter_font_frame:
  assumes "merge_inter_font E target donor rp = Inr out"
  shows "GSUB out = GSUB target \<and> other_tables out = other_tables target \<and> inter_gpos_merged out
         \<and> (\<exists>mid. merge_inter_font_gpos_table
                (target\<lparr>glyphOrder := glyphOrder target @
                    map (\<lambda>g. merge_font_prefix @ g) (glyphOrder donor)\<rparr>)
                donor (build_name_map (glyphOrder donor)) = Inr mid \<and> GPOS out = GPOS mid)"
proof -
  let ?m = "build_name_map (glyphOrder donor)"
  let ?font1 = "target\<lparr>glyphOrder := glyphOrder target @
                    map (\<lambda>g. merge_font_prefix @ g) (glyphOrder donor)\<rparr>"
  from assms obtain ig ih font2 gl hm font4 tabs where
    a: "merge_inter_font_gpos_table ?font1 donor ?m = Inr font2"
    and c: "foldE (replace_punc_glyph E ?m ig ih) (inter_punc_map rp)
              (font2\<lparr>glyf := Some gl, hmtx := Some hm\<rparr>) = Inr font4"
    and d: "out = font4\<lparr>cmap_tables := Some tabs\<rparr>"
    by (auto simp: merge_inter_font_def Let_def
        split: if_splits option.splits sum.splits prod.splits)
  let ?P = "\<lambda>f. GSUB f = GSUB font2 \<and> other_tables f = other_tables font2 \<and>
                 inter_gpos_merged f = inter_gpos_merged font2 \<and> GPOS f = GPOS font2"
  have "?P font4"
  proof (rule foldE_invariant[OF c, where P = ?P])
    show "?P (font2\<lparr>glyf := Some gl, hmtx := Some hm\<rparr>)" by simp
  next
    fix x a b
    assume "?P a" and "replace_punc_glyph E ?m ig ih x a = Inr b"
    with replace_punc_glyph_frame[of E ?m ig ih x a b] show "?P b" by simp
  qed
  with merge_gpos_frame[OF a] a d show ?thesis by auto
qed

lemma process_glyphs_frame:
  assumes "process_glyphs E font pct = Inr (font', p, u)"
  shows "GSUB font' = GSUB font \<and> other_tables font' = other_tables font \<and> GPOS font' = GPOS font"
  using assms by (auto simp: process_glyphs_def split: option.splits sum.splits)

lemma set_font_parameter_frame:
  assumes "set_font_parameter E font n v = Inr font'"
  shows "GSUB font' = GSUB font \<and> other_tables font' = other_tables font \<and> GPOS font' = GPOS font"
  using assms by (auto simp: set_font_parameter_def split: option.splits sum.splits)

lemma set_line_gap_frame:
  "GSUB (set_line_gap font g) = GSUB font \<and> other_tables (set_line_gap font g) = other_tables font
   \<and> GPOS (set_line_gap font g) = GPOS font"
  by (simp add: set_line_gap_def)

text \<open>
  C10. \<^verbatim>\<open>remove_font_tables\<close> leaves a font with no \<^verbatim>\<open>GSUB\<close>, no \<^verbatim>\<open>STAT\<close> and no
  table whose tag starts with \<^verbatim>\<open>cv\<close>, whatever font it is given, and
  \<^verbatim>\<open>remove_locl_feature\<close> returns that font as it is. \<^verbatim>\<open>build_font\<close> calls the two in
  this order on every run, after the stylistic sets, and no later stage adds a table: the
  font it saves has no \<^verbatim>\<open>GSUB\<close>, no \<^verbatim>\<open>STAT\<close> and no \<^verbatim>\<open>cv\<close> table.
\<close>

theorem build_font_removes_GSUB:
  fixes font :: "'o font" and E :: "'o env"
  shows "GSUB (remove_font_tables font) = None
   \<and> \<not> has_table (remove_font_tables font) ''STAT''
   \<and> filter (\<lambda>tag. startswith tag ''cv'') (other_tables (remove_font_tables font)) = []
   \<and> remove_locl_feature (remove_font_tables font) = Inr (remove_font_tables font)
   \<and> (build_font E config = Inr out \<longrightarrow>
        GSUB out = None \<and> \<not> has_table out ''STAT''
        \<and> filter (\<lambda>tag. startswith tag ''cv'') (other_tables out) = [])"
proof -
  have 1: "GSUB (remove_font_tables f) = None" for f :: "'o font"
    by (rule remove_font_tables_GSUB)
  have 2: "\<not> has_table (remove_font_tables f) ''STAT''" for f :: "'o font"
    by (simp add: has_table_def remove_font_tables_other)
  have 3: "filter (\<lambda>tag. startswith tag ''cv'') (other_tables (remove_font_tables f)) = []"
    for f :: "'o font"
    by (simp add: remove_font_tables_other filter_empty_conv)
  have 4: "remove_locl_feature (remove_font_tables f) = Inr (remove_font_tables f)" for f :: "'o font"
    by (simp add: remove_locl_no_GSUB 1)
  have 5: "GSUB out = None \<and> \<not> has_table out ''STAT''
           \<and> filter (\<lambda>tag. startswith tag ''cv'') (other_tables out) = []"
    if run: "build_font E config = Inr out"
  proof -
    from run obtain font2 font5 font6 p u font7 where
      m: "(case merge_font config of
             None \<Rightarrow> Inr (remove_font_tables font2)
           | Some inter_font \<Rightarrow>
               merge_inter_font E (remove_font_tables font2) inter_font (replace_punc config))
          = Inr font5"
      and pg: "process_glyphs E font5 (cjk_width_adjust config) = Inr (font6, p, u)"
      and sp: "set_font_parameter E font6 (font_name config) (font_version config) = Inr font7"
      and o: "out = (if new_line_gap config \<noteq> 0 then set_line_gap font7 (new_line_gap config)
                     else font7)"
      by (auto simp: build_font_def Let_def 4 split: if_splits sum.splits prod.splits)
    from m have "GSUB font5 = GSUB (remove_font_tables font2)
             \<and> other_tables font5 = other_tables (remove_font_tables font2)"
      by (cases "merge_font config") (auto dest: merge_inter_font_frame)
    with process_glyphs_frame[OF pg] set_font_parameter_frame[OF sp]
      set_line_gap_frame[of font7 "new_line_gap config"] o
    have "GSUB out = GSUB (remove_font_tables font2)
          \<and> other_tables out = other_tables (remove_font_tables font2)"
      by (auto split: if_splits)
    with 1[of font2] 2[of font2] 3[of font2] show ?thesis by (simp add: has_table_def)
  qed
  from 1 2 3 4 5 show ?thesis by blast
qed

theorem build_font_removes_GSUB_witness:
  "GSUB (input_font example_config) \<noteq> None \<and> has_table (input_font example_config) ''STAT'' \<and>
   (\<exists>out. build_font example_env example_config = Inr out \<and> GSUB out = None \<and>
      \<not> has_table out ''STAT''
      \<and> filter (\<lambda>tag. startswith tag ''cv'') (other_tables out) = [])"
proof -
  have "\<exists>out. build_font example_env example_config = Inr out"
    by (simp add: build_font_def example_config_def font_cjk_def font_inter_def example_env_def
        has_table_def apply_stylistic_sets_def apply_lookup_def apply_subtable_def apply_pair_def
        remove_stylistic_sets_def tag_indices_def drop_indices_def prune_script_record_def
        prune_lang_sys_def ssXX_tags_def ss_tag_def digit_char_def
        remove_font_tables_def del_table_def startswith_def remove_locl_feature_def
        merge_inter_font_def build_name_map_def merge_font_prefix_def
        merge_inter_font_gpos_table_def remap_table_def insert_lookups_def
        offset_feature_record_def offset_script_record_def offset_lang_sys_def
        copy_glyph_def inter_punc_map_def replace_punc_glyph_def getBestCmap_def
        List.map_filter_def update_cmap_def update_cmap_entry_def merged_cmap_def dict_update_def
        is_control_def keeps_target_glyph_def write_cmap_def isUnicode_def
        process_glyphs_def expand_of_def py_int_def set_font_parameter_def set_name_record_def
        set_line_gap_def Let_def square_def pair_pos_def context_pos_def class_pair_pos_def
        single_pos_def enumerate_eq_zip upt_rec)
  then obtain out where run: "build_font example_env example_config = Inr out" ..
  have "GSUB (input_font example_config) \<noteq> None \<and> has_table (input_font example_config) ''STAT''"
    by (simp add: example_config_def font_cjk_def has_table_def)
  with build_font_removes_GSUB[of font_cjk example_env example_config out] run
  show ?thesis by blast
qed

section \<open>The cross-font merge of the positioning table\<close>


text \<open>
  C6. A call of \<^verbatim>\<open>merge_inter_font_gpos_table\<close> that returns leaves the flag
  \<^verbatim>\<open>_inter_gpos_merged\<close> set on the primary font, and a second call on that font, with any
  donor and name map, returns it unchanged. The same holds one level up: after
  \<^verbatim>\<open>merge_inter_font\<close> the flag is set, and if a second \<^verbatim>\<open>merge_inter_font\<close> returns, the
  positioning table (its lists, counts and indices) is the one it was.
\<close>

theorem merge_gpos_idempotent:
  fixes target :: "'o font" and E :: "'o env"
  shows "(merge_inter_font_gpos_table target donor m = Inr merged \<longrightarrow>
            inter_gpos_merged merged \<and>
            merge_inter_font_gpos_table merged donor' m' = Inr merged)
       \<and> (merge_inter_font E target donor rp = Inr merged2 \<longrightarrow>
            inter_gpos_merged merged2 \<and>
            (merge_inter_font E' merged2 donor' rp' = Inr again \<longrightarrow> GPOS again = GPOS merged2))"
proof -
  have a: "inter_gpos_merged merged \<and> merge_inter_font_gpos_table merged donor' m' = Inr merged"
    if "merge_inter_font_gpos_table target donor m = Inr merged"
    using merge_gpos_frame[OF that] by (simp add: merge_inter_font_gpos_table_def)
  have b: "inter_gpos_merged merged2"
    if "merge_inter_font E target donor rp = Inr merged2"
    using merge_inter_font_frame[OF that] by simp
  have c: "GPOS again = GPOS merged2"
    if "merge_inter_font E target donor rp = Inr merged2"
      and "merge_inter_font E' merged2 donor' rp' = Inr again"
  proof -
    from merge_inter_font_frame[OF that(2)] obtain mid where
      mid: "merge_inter_font_gpos_table
              (merged2\<lparr>glyphOrder := glyphOrder merged2 @
                  map (\<lambda>g. merge_font_prefix @ g) (glyphOrder donor')\<rparr>)
              donor' (build_name_map (glyphOrder donor')) = Inr mid"
      and eq: "GPOS again = GPOS mid" by blast
    from b[OF that(1)] mid have
      "mid = merged2\<lparr>glyphOrder := glyphOrder merged2 @
                  map (\<lambda>g. merge_font_prefix @ g) (glyphOrder donor')\<rparr>"
      by (simp add: merge_inter_font_gpos_table_def)
    with eq show ?thesis by simp
  qed
  from a b c show ?thesis by blast
qed


text \<open>The definitions an evaluation of the merge on the example fonts unfolds.\<close>

lemmas ev_defs = font_cjk_def font_inter_def example_env_def
        has_table_def 
        merge_inter_font_def build_name_map_def merge_font_prefix_def
        merge_inter_font_gpos_table_def remap_table_def insert_lookups_def
        offset_feature_record_def offset_script_record_def offset_lang_sys_def
        copy_glyph_def inter_punc_map_def replace_punc_glyph_def getBestCmap_def
        List.map_filter_def update_cmap_def update_cmap_entry_def merged_cmap_def dict_update_def
        is_control_def keeps_target_glyph_def write_cmap_def isUnicode_def
        Let_def square_def pair_pos_def context_pos_def class_pair_pos_def
        single_pos_def gpos_lookups_def gpos_features_def gpos_scripts_def
        remap_own_def remap_glyphs_def remap_classDefs_def remap_ClassDef_def remap_PairSet_def
        remap_pairSet_def remap_pvr_def rename_def rename_keys_def startswith_def



theorem merge_gpos_idempotent_witness:
  "(\<exists>merged. merge_inter_font_gpos_table font_cjk font_inter
        (build_name_map (glyphOrder font_inter)) = Inr merged \<and>
      merge_inter_font_gpos_table merged font_inter (build_name_map (glyphOrder font_inter))
        = Inr merged)
   \<and> (\<exists>merged again. merge_inter_font example_env font_cjk font_inter 1 = Inr merged \<and>
        merge_inter_font example_env merged font_inter 1 = Inr again \<and>
        inter_gpos_merged merged \<and> GPOS again = GPOS merged)"
proof -
  let ?m = "build_name_map (glyphOrder font_inter)"
  have "\<exists>merged. merge_inter_font_gpos_table font_cjk font_inter ?m = Inr merged"
    by (simp add: merge_inter_font_gpos_table_def remap_table_def font_cjk_def font_inter_def Let_def)
  then obtain m1 where m1: "merge_inter_font_gpos_table font_cjk font_inter ?m = Inr m1" ..
  have "\<exists>merged. merge_inter_font example_env font_cjk font_inter 1 = Inr merged \<and>
     (\<exists>again. merge_inter_font example_env merged font_inter 1 = Inr again)"
    by (simp add: ev_defs)
  then obtain merged again where
    r: "merge_inter_font example_env font_cjk font_inter 1 = Inr merged"
       "merge_inter_font example_env merged font_inter 1 = Inr again" by blast
  from merge_gpos_idempotent[of font_cjk font_inter ?m m1 font_inter ?m example_env 1 merged
      example_env 1 again] m1 r
  have "merge_inter_font_gpos_table m1 font_inter ?m = Inr m1"
    and "inter_gpos_merged merged" and "GPOS again = GPOS merged" by simp_all
  with m1 r show ?thesis by (intro conjI exI[of _ m1] exI[of _ merged] exI[of _ again]) simp_all
qed

section \<open>The character map rewrite (merge\_inter\_font, step 2)\<close>

lemma write_cmap_frame:
  "format (write_cmap c new t) = format t \<and> platformID (write_cmap c new t) = platformID t
   \<and> platEncID (write_cmap c new t) = platEncID t"
  by (simp add: write_cmap_def)

lemma writable_write_cmap [simp]: "writable (write_cmap c new t) cp = writable t cp"
  by (simp add: writable_def isUnicode_def write_cmap_frame)

lemma map_of_write_cmap:
  "map_of (cmap (write_cmap c new t)) cp
     = (if cp = c \<and> writable t c then Some new else map_of (cmap t) cp)"
  by (auto simp: write_cmap_def writable_def update_conv')

lemma update_cmap_entry_step:
  assumes "update_cmap_entry m tc hm (c, n) tabs = Inr tabs1"
  shows "length tabs1 = length tabs \<and>
         (is_control c \<or> keeps_target_glyph tc hm c \<or> map_of m n \<noteq> None) \<and>
         (\<forall>i<length tabs. \<forall>cp.
            writable (tabs1 ! i) cp = writable (tabs ! i) cp \<and>
            map_of (cmap (tabs1 ! i)) cp =
              (if cp = c \<and> \<not> is_control c \<and> \<not> keeps_target_glyph tc hm c \<and> writable (tabs ! i) c
               then map_of m n else map_of (cmap (tabs ! i)) cp))"
  using assms
  by (auto simp: update_cmap_entry_def Let_def map_of_write_cmap split: if_splits option.splits)

lemma foldE_update_cmap:
  assumes "foldE (update_cmap_entry m tc hm) items tabs = Inr tabs'"
      and "distinct (map fst items)"
  shows "length tabs' = length tabs \<and>
         (\<forall>cp name. map_of items cp = Some name \<and> \<not> is_control cp \<and> \<not> keeps_target_glyph tc hm cp
             \<longrightarrow> map_of m name \<noteq> None) \<and>
         (\<forall>i<length tabs. \<forall>cp.
            writable (tabs' ! i) cp = writable (tabs ! i) cp \<and>
            map_of (cmap (tabs' ! i)) cp =
              (case map_of items cp of
                 None \<Rightarrow> map_of (cmap (tabs ! i)) cp
               | Some name \<Rightarrow>
                   if is_control cp \<or> keeps_target_glyph tc hm cp \<or> \<not> writable (tabs ! i) cp
                   then map_of (cmap (tabs ! i)) cp else map_of m name))"
  using assms
proof (induction items arbitrary: tabs)
  case Nil
  then show ?case by simp
next
  case (Cons ci items)
  obtain c n where ci: "ci = (c, n)" by (cases ci)
  from Cons.prems(1) ci obtain tabs1 where
    step: "update_cmap_entry m tc hm (c, n) tabs = Inr tabs1"
    and rest: "foldE (update_cmap_entry m tc hm) items tabs1 = Inr tabs'"
    by (auto split: sum.splits)
  from Cons.prems(2) ci have d: "distinct (map fst items)" and notin: "map_of items c = None"
    by (auto simp: map_of_eq_None_iff)
  note S = update_cmap_entry_step[OF step]
  note R = Cons.IH[OF rest d]
  from S R have len: "length tabs' = length tabs" by simp
  have ex: "map_of m name \<noteq> None"
    if "map_of (ci # items) cp = Some name" "\<not> is_control cp" "\<not> keeps_target_glyph tc hm cp"
    for cp name
    using that S R ci by (auto split: if_splits)
  have val: "writable (tabs' ! i) cp = writable (tabs ! i) cp \<and>
            map_of (cmap (tabs' ! i)) cp =
              (case map_of (ci # items) cp of
                 None \<Rightarrow> map_of (cmap (tabs ! i)) cp
               | Some name \<Rightarrow>
                   if is_control cp \<or> keeps_target_glyph tc hm cp \<or> \<not> writable (tabs ! i) cp
                   then map_of (cmap (tabs ! i)) cp else map_of m name)"
    if i: "i < length tabs" for i cp
  proof (cases "cp = c")
    case True
    from R S i have "map_of (cmap (tabs' ! i)) c = map_of (cmap (tabs1 ! i)) c"
      and "writable (tabs' ! i) c = writable (tabs ! i) c"
      using notin by simp_all
    with S i True ci show ?thesis by auto
  next
    case False
    from R S i have "writable (tabs' ! i) cp = writable (tabs ! i) cp" by simp
    moreover from S i False have "map_of (cmap (tabs1 ! i)) cp = map_of (cmap (tabs ! i)) cp"
      and "writable (tabs1 ! i) cp = writable (tabs ! i) cp" by simp_all
    moreover from R S i have "map_of (cmap (tabs' ! i)) cp =
              (case map_of items cp of
                 None \<Rightarrow> map_of (cmap (tabs1 ! i)) cp
               | Some name \<Rightarrow>
                   if is_control cp \<or> keeps_target_glyph tc hm cp \<or> \<not> writable (tabs1 ! i) cp
                   then map_of (cmap (tabs1 ! i)) cp else map_of m name)" by simp
    ultimately show ?thesis using False ci by (simp split: option.splits)
  qed
  from len ex val show ?case by blast
qed

lemma distinct_dict_update:
  "distinct (map fst d) \<Longrightarrow> distinct (map fst (dict_update d e))"
  unfolding dict_update_def by (induction e arbitrary: d) (simp_all add: distinct_update)

lemma distinct_fold_dict_update:
  "distinct (map fst acc) \<Longrightarrow>
   distinct (map fst (fold (\<lambda>t acc. dict_update acc (cmap t)) ts acc))"
  by (induction ts arbitrary: acc) (simp_all add: distinct_dict_update)

lemma distinct_merged_cmap: "distinct (map fst (merged_cmap ts))"
  by (simp add: merged_cmap_def distinct_fold_dict_update)

lemma map_of_fold_name_map:
  "map_of (fold (\<lambda>g m. AList.update g (p @ g) m) order acc) g
     = (if g \<in> set order then Some (p @ g) else map_of acc g)"
  by (induction order arbitrary: acc) (auto simp: update_conv')

lemma map_of_build_name_map:
  "map_of (build_name_map order) g
     = (if g \<in> set order then Some (merge_font_prefix @ g) else None)"
  by (simp add: build_name_map_def map_of_fold_name_map)

text \<open>
  C3, as amended. Let the rewrite return, and let \<open>cp\<close> be a code point of the donor's
  character map (the union of its encoding tables) outside the control ranges. The
  primary's glyph for \<open>cp\<close> is looked up in the union of the primary's encoding tables.
  \<^item> When that glyph has an \<^verbatim>\<open>hmtx\<close> entry with advance width exactly 1000, every table
    of the primary maps \<open>cp\<close> as before.
  \<^item> When the primary has no glyph for \<open>cp\<close>, or the glyph has no \<^verbatim>\<open>hmtx\<close> entry or an
    advance width below 1000, the donor glyph has a namespaced name (the merge prefix
    followed by its name), and every Unicode table of format 4 (when \<open>cp\<close> is at most
    \<open>0xFFFF\<close>) or format 12 maps \<open>cp\<close> to it; a table of another format, or one that is
    not Unicode, maps \<open>cp\<close> as before.

  A glyph wider than 1000 units is in neither case: the guard of the code is
  \<^verbatim>\<open>width >= 1000\<close>, where its docstring and its log line speak of width 1000.
\<close>

theorem update_cmap_rewrite:
  assumes "update_cmap m target_hmtx inter_tables target_tables = Inr tables'"
      and "map_of (merged_cmap inter_tables) cp = Some inter_glyph_name"
      and "\<not> is_control cp"
      and "i < length target_tables"
  shows "length tables' = length target_tables
     \<and> ((\<exists>g l. map_of (merged_cmap target_tables) cp = Some g \<and> g \<noteq> [] \<and>
                map_of target_hmtx g = Some (1000, l)) \<longrightarrow>
          map_of (cmap (tables' ! i)) cp = map_of (cmap (target_tables ! i)) cp)
     \<and> ((map_of (merged_cmap target_tables) cp = None \<or>
          (\<exists>g. map_of (merged_cmap target_tables) cp = Some g \<and>
               (g = [] \<or> map_of target_hmtx g = None \<or>
                (\<exists>w l. map_of target_hmtx g = Some (w, l) \<and> w < 1000)))) \<longrightarrow>
          (\<exists>new. map_of m inter_glyph_name = Some new \<and>
             map_of (cmap (tables' ! i)) cp =
               (if isUnicode (target_tables ! i) \<and>
                   (format (target_tables ! i) = 4 \<and> cp \<le> 65535 \<or> format (target_tables ! i) = 12)
                then Some new else map_of (cmap (target_tables ! i)) cp)))
     \<and> (m = build_name_map order \<and> inter_glyph_name \<in> set order \<longrightarrow>
          map_of m inter_glyph_name = Some (merge_font_prefix @ inter_glyph_name))"
proof -
  let ?tc = "merged_cmap target_tables"
  from assms(1) have run:
    "foldE (update_cmap_entry m ?tc target_hmtx) (merged_cmap inter_tables) target_tables
       = Inr tables'"
    by (simp add: update_cmap_def)
  note F = foldE_update_cmap[OF run distinct_merged_cmap]
  from F have 1: "length tables' = length target_tables" by simp
  from F assms(2,3,4) have val: "map_of (cmap (tables' ! i)) cp =
         (if keeps_target_glyph ?tc target_hmtx cp \<or> \<not> writable (target_tables ! i) cp
          then map_of (cmap (target_tables ! i)) cp else map_of m inter_glyph_name)"
    by simp
  have 2: "map_of (cmap (tables' ! i)) cp = map_of (cmap (target_tables ! i)) cp"
    if "\<exists>g l. map_of ?tc cp = Some g \<and> g \<noteq> [] \<and> map_of target_hmtx g = Some (1000, l)"
  proof -
    from that have "keeps_target_glyph ?tc target_hmtx cp"
      by (auto simp: keeps_target_glyph_def)
    with val show ?thesis by simp
  qed
  have 3: "\<exists>new. map_of m inter_glyph_name = Some new \<and>
             map_of (cmap (tables' ! i)) cp =
               (if isUnicode (target_tables ! i) \<and>
                   (format (target_tables ! i) = 4 \<and> cp \<le> 65535 \<or> format (target_tables ! i) = 12)
                then Some new else map_of (cmap (target_tables ! i)) cp)"
    if "map_of ?tc cp = None \<or>
          (\<exists>g. map_of ?tc cp = Some g \<and>
               (g = [] \<or> map_of target_hmtx g = None \<or>
                (\<exists>w l. map_of target_hmtx g = Some (w, l) \<and> w < 1000)))"
  proof -
    from that have nk: "\<not> keeps_target_glyph ?tc target_hmtx cp"
      by (auto simp: keeps_target_glyph_def split: option.splits)
    with F assms(2,3) obtain new where new: "map_of m inter_glyph_name = Some new" by blast
    with val nk show ?thesis by (auto simp: writable_def)
  qed
  have 4: "m = build_name_map order \<and> inter_glyph_name \<in> set order \<longrightarrow>
          map_of m inter_glyph_name = Some (merge_font_prefix @ inter_glyph_name)"
    by (simp add: map_of_build_name_map)
  from 1 2 3 4 show ?thesis by blast
qed

theorem update_cmap_rewrite_witness:
  "\<exists>tables'. update_cmap (build_name_map (glyphOrder font_inter))
       [(''uniFF01'', (1000, 100)), (''a'', (500, 40)), (''wide'', (1200, 100))]
       (cmap_of font_inter) (cmap_of font_cjk) = Inr tables' \<and>
     map (\<lambda>t. map_of (cmap t) 0x41) tables' = [Some ''inter_A'', Some ''a'', Some ''inter_A''] \<and>
     map (\<lambda>t. map_of (cmap t) 0x21) tables' = [Some ''uniFF01'', None, None]"
proof -
  let ?m = "build_name_map (glyphOrder font_inter)"
  let ?hm = "[(''uniFF01'', (1000::int, 100::int)), (''a'', (500, 40)), (''wide'', (1200, 100))]"
  have "\<exists>tables'. update_cmap ?m ?hm (cmap_of font_inter) (cmap_of font_cjk) = Inr tables'"
    by (simp add: update_cmap_def update_cmap_entry_def merged_cmap_def dict_update_def
        cmap_of_def font_inter_def font_cjk_def is_control_def keeps_target_glyph_def
        write_cmap_def isUnicode_def build_name_map_def merge_font_prefix_def Let_def)
  then obtain tables' where
    run: "update_cmap ?m ?hm (cmap_of font_inter) (cmap_of font_cjk) = Inr tables'" ..
  have mc: "merged_cmap (cmap_of font_inter)
              = [(0x1F, ''.notdef''), (0x21, ''exclam''), (0x3F, ''question''), (0x41, ''A''),
                 (0x56, ''V'')]"
       "merged_cmap (cmap_of font_cjk)
              = [(0x21, ''uniFF01''), (0x41, ''a''), (0x56, ''wide''), (0x4E00, ''uni4E00''),
                 (0xFF01, ''uniFF01'')]"
    by (simp_all add: merged_cmap_def dict_update_def cmap_of_def font_inter_def font_cjk_def)
  have inA: "map_of (merged_cmap (cmap_of font_inter)) 0x41 = Some ''A''"
    and inE: "map_of (merged_cmap (cmap_of font_inter)) 0x21 = Some ''exclam''"
    by (simp_all add: mc)
  have c: "\<not> is_control 0x41" "\<not> is_control 0x21" by (simp_all add: is_control_def)
  have len: "length (cmap_of font_cjk) = 3" by (simp add: cmap_of_def font_cjk_def)
  have i: "0 < length (cmap_of font_cjk)" "1 < length (cmap_of font_cjk)"
    "2 < length (cmap_of font_cjk)" by (simp_all add: len)
  note T = update_cmap_rewrite[OF run, where order = "glyphOrder font_inter"]
  have narrow: "map_of (merged_cmap (cmap_of font_cjk)) 0x41 = None \<or>
          (\<exists>g. map_of (merged_cmap (cmap_of font_cjk)) 0x41 = Some g \<and>
               (g = [] \<or> map_of ?hm g = None \<or>
                (\<exists>w l. map_of ?hm g = Some (w, l) \<and> w < 1000)))"
    by (simp add: mc)
  have full: "\<exists>g l. map_of (merged_cmap (cmap_of font_cjk)) 0x21 = Some g \<and> g \<noteq> [] \<and>
                map_of ?hm g = Some (1000, l)"
    by (simp add: mc)
  have u: "isUnicode (cmap_of font_cjk ! 0)" "format (cmap_of font_cjk ! 0) = 4"
    "format (cmap_of font_cjk ! 1) = 6" "format (cmap_of font_cjk ! 2) = 12"
    "isUnicode (cmap_of font_cjk ! 2)"
    by (simp_all add: isUnicode_def cmap_of_def font_cjk_def)
  have old: "map_of (cmap (cmap_of font_cjk ! 1)) 0x41 = Some ''a''"
    "map_of (cmap (cmap_of font_cjk ! 0)) 0x21 = Some ''uniFF01''"
    "map_of (cmap (cmap_of font_cjk ! 1)) 0x21 = None"
    "map_of (cmap (cmap_of font_cjk ! 2)) 0x21 = None"
    by (simp_all add: cmap_of_def font_cjk_def)
  have nm: "map_of ?m ''A'' = Some ''inter_A''"
    by (simp add: build_name_map_def merge_font_prefix_def font_inter_def)
  from T[OF inA c(1) i(1)] len have l3: "length tables' = 3" by simp
  then obtain t0 t1 t2 where ts: "tables' = [t0, t1, t2]"
    by (auto simp: length_Suc_conv numeral_3_eq_3)
  note A0 = mp[OF conjunct1[OF conjunct2[OF conjunct2[OF T[OF inA c(1) i(1)]]]] narrow]
  note A1 = mp[OF conjunct1[OF conjunct2[OF conjunct2[OF T[OF inA c(1) i(2)]]]] narrow]
  note A2 = mp[OF conjunct1[OF conjunct2[OF conjunct2[OF T[OF inA c(1) i(3)]]]] narrow]
  note E0 = mp[OF conjunct1[OF conjunct2[OF T[OF inE c(2) i(1)]]] full]
  note E1 = mp[OF conjunct1[OF conjunct2[OF T[OF inE c(2) i(2)]]] full]
  note E2 = mp[OF conjunct1[OF conjunct2[OF T[OF inE c(2) i(3)]]] full]
  have a0: "map_of (cmap (tables' ! 0)) 0x41 = Some ''inter_A''"
    using A0 u nm by simp
  have a1: "map_of (cmap (tables' ! 1)) 0x41 = Some ''a''"
    using A1 u old(1) nm by simp
  have a2: "map_of (cmap (tables' ! 2)) 0x41 = Some ''inter_A''"
    using A2 u nm by simp
  have e0: "map_of (cmap (tables' ! 0)) 0x21 = Some ''uniFF01''"
    using E0 old(2) by simp
  have e1: "map_of (cmap (tables' ! 1)) 0x21 = None"
    using E1 old(3) by simp
  have e2: "map_of (cmap (tables' ! 2)) 0x21 = None"
    using E2 old(4) by simp
  from a0 a1 a2 e0 e1 e2 ts
  have "map (\<lambda>t. map_of (cmap t) 0x41) tables' = [Some ''inter_A'', Some ''a'', Some ''inter_A'']"
    and "map (\<lambda>t. map_of (cmap t) 0x21) tables' = [Some ''uniFF01'', None, None]"
    by simp_all
  with run show ?thesis by (intro exI[of _ tables']) simp
qed

text \<open>
  The claim as the specification has it fails twice on the example fonts: code point
  \<open>0x56\<close> is mapped to a glyph 1200 units wide and keeps it, and the Unicode table of
  format 6 is not written at \<open>0x41\<close>, where the other two tables get the donor glyph.
\<close>

theorem cmap_rewrite_counterexample:
  "map_sum id (\<lambda>f. map (\<lambda>t. (format t, isUnicode t, map_of (cmap t) 0x56, map_of (cmap t) 0x41))
                  (cmap_of f))
     (merge_inter_font example_env font_cjk font_inter 1)
     = Inr [(4, True, Some ''wide'', Some ''inter_A''), (6, True, None, Some ''a''),
            (12, True, None, Some ''inter_A'')]
   \<and> map_of (merged_cmap (cmap_of font_inter)) 0x56 = Some ''V''
   \<and> map_of (merged_cmap (cmap_of font_inter)) 0x41 = Some ''A''
   \<and> advance_width font_cjk ''wide'' = Some 1200 \<and> advance_width font_cjk ''a'' = Some 500"
  by (simp add: ev_defs cmap_of_def advance_width_def)

section \<open>Stylistic-set pruning (remove\_stylistic\_sets)\<close>

lemma ssXX_tags_eq:
  "ssXX_tags = [''ss01'', ''ss02'', ''ss03'', ''ss04'', ''ss05'', ''ss06'', ''ss07'', ''ss08'',
     ''ss09'', ''ss10'', ''ss11'', ''ss12'', ''ss13'', ''ss14'', ''ss15'', ''ss16'', ''ss17'',
     ''ss18'', ''ss19'', ''ss20'']"
  by code_simp

text \<open>
  What the pruning does in general: the feature records with a stylistic-set tag go, and
  from every feature-index list the indices that designated them go. Every index that
  stays keeps its value.
\<close>

lemma tag_indices_iff:
  "i \<in> set (tag_indices P frs) \<longleftrightarrow> i < length frs \<and> P (FeatureTag (frs ! i))"
  by (auto simp: tag_indices_def in_set_enumerate_eq image_iff)

lemma drop_tag_indices:
  "drop_indices (tag_indices P frs) frs = filter (\<lambda>fr. \<not> P (FeatureTag fr)) frs"
proof -
  have "filter (\<lambda>p. fst p \<notin> set (tag_indices P frs)) (enumerate 0 frs)
        = filter (\<lambda>p. \<not> P (FeatureTag (snd p))) (enumerate 0 frs)"
    by (rule filter_cong) (auto simp: tag_indices_iff in_set_enumerate_eq)
  then have "drop_indices (tag_indices P frs) frs
        = map snd (filter (\<lambda>p. \<not> P (FeatureTag (snd p))) (enumerate 0 frs))"
    by (simp add: drop_indices_def)
  also have "\<dots> = filter (\<lambda>fr. \<not> P (FeatureTag fr)) (map snd (enumerate 0 frs))"
    by (simp only: filter_map comp_def)
  also have "map snd (enumerate 0 frs) = frs"
    by (simp add: enumerate_eq_zip)
  finally show ?thesis .
qed

lemma remove_stylistic_sets_features:
  assumes "remove_stylistic_sets font = Inr font'"
  shows "gsub_features font' = filter (\<lambda>fr. FeatureTag fr \<notin> set ssXX_tags) (gsub_features font)"
  using assms
  by (auto simp: remove_stylistic_sets_def gsub_features_def Let_def drop_tag_indices
      split: option.splits)

lemma feature_index_lists_Nil [simp]: "feature_index_lists [] = []"
  by (simp add: feature_index_lists_def)

lemma feature_index_lists_prune:
  "feature_index_lists (map (prune_script_record idxs) srs)
     = map (filter (\<lambda>idx. idx \<notin> set idxs)) (feature_index_lists srs)"
  by (induction srs)
     (auto simp: feature_index_lists_def prune_script_record_def prune_lang_sys_def comp_def
       split: option.splits)

lemma remove_stylistic_sets_indices:
  assumes "remove_stylistic_sets font = Inr font'"
  shows "feature_index_lists (gsub_scripts font')
         = map (filter (\<lambda>idx. \<not> (idx < length (gsub_features font) \<and>
                                  FeatureTag (gsub_features font ! idx) \<in> set ssXX_tags)))
             (feature_index_lists (gsub_scripts font))"
  using assms
  by (auto simp: remove_stylistic_sets_def gsub_features_def gsub_scripts_def Let_def
      feature_index_lists_prune tag_indices_iff split: option.splits)

text \<open>
  C5, as amended. After \<^verbatim>\<open>remove_stylistic_sets\<close> the feature list is the old one without
  the records tagged \<^verbatim>\<open>ss01\<close> to \<^verbatim>\<open>ss20\<close>, in the old order, so no such record is left;
  and every feature-index list (of a default language system or of a language-system
  record) is the old one without the indices that designated a removed record. The
  indices that stay keep their values: nothing is renumbered.
\<close>

theorem stylistic_pruning_result:
  assumes "remove_stylistic_sets font = Inr font'"
  shows "gsub_features font'
           = filter (\<lambda>fr. FeatureTag fr \<notin> set ssXX_tags) (gsub_features font)
     \<and> filter (\<lambda>fr. FeatureTag fr \<in> set ssXX_tags) (gsub_features font') = []
     \<and> feature_index_lists (gsub_scripts font')
           = map (filter (\<lambda>idx. \<not> (idx < length (gsub_features font) \<and>
                                    FeatureTag (gsub_features font ! idx) \<in> set ssXX_tags)))
               (feature_index_lists (gsub_scripts font))"
  using remove_stylistic_sets_features[OF assms] remove_stylistic_sets_indices[OF assms]
  by (simp add: filter_empty_conv)

theorem stylistic_pruning_result_witness:
  "\<exists>font'. remove_stylistic_sets font_cjk = Inr font' \<and>
     map FeatureTag (gsub_features font') = [''liga'', ''vert''] \<and>
     feature_index_lists (gsub_scripts font') = [[1, 2]]"
proof -
  have "\<exists>font'. remove_stylistic_sets font_cjk = Inr font'"
    by (simp add: remove_stylistic_sets_def font_cjk_def Let_def)
  then obtain font' where run: "remove_stylistic_sets font_cjk = Inr font'" ..
  have f: "map FeatureTag (gsub_features font_cjk) = [''ss01'', ''liga'', ''vert'']"
    and l: "length (gsub_features font_cjk) = 3"
    and n: "FeatureTag (gsub_features font_cjk ! 0) = ''ss01''"
           "FeatureTag (gsub_features font_cjk ! 1) = ''liga''"
           "FeatureTag (gsub_features font_cjk ! 2) = ''vert''"
    and i: "feature_index_lists (gsub_scripts font_cjk) = [[0, 1, 2]]"
    by (simp_all add: gsub_features_def gsub_scripts_def feature_index_lists_def font_cjk_def)
  have "map FeatureTag (gsub_features font') = [''liga'', ''vert'']"
    using stylistic_pruning_result[OF run]
    by (simp add: gsub_features_def font_cjk_def ssXX_tags_eq)
  moreover have "feature_index_lists (gsub_scripts font') = [[1, 2]]"
    using stylistic_pruning_result[OF run] i l n by (simp add: ssXX_tags_eq)
  ultimately show ?thesis using run by (intro exI[of _ font']) simp
qed

text \<open>
  The claim as the specification has it fails at a font with the features \<^verbatim>\<open>ss01\<close>,
  \<^verbatim>\<open>liga\<close>, \<^verbatim>\<open>vert\<close> and one language system with the feature indices \<open>[0, 1, 2]\<close>:
  two feature records are left, and the language system lists the indices \<open>[1, 2]\<close>, of
  which 2 is out of range and 1 now is \<^verbatim>\<open>vert\<close>; renumbered they would be \<open>[0, 1]\<close>.
\<close>

theorem stylistic_pruning_stale_indices:
  "map FeatureTag (gsub_features font_cjk) = [''ss01'', ''liga'', ''vert'']
   \<and> feature_index_lists (gsub_scripts font_cjk) = [[0, 1, 2]]
   \<and> map_sum id
        (\<lambda>f. (map FeatureTag (gsub_features f), feature_index_lists (gsub_scripts f)))
        (remove_stylistic_sets font_cjk)
       = Inr ([''liga'', ''vert''], [[1, 2]])"
  by (simp add: remove_stylistic_sets_def font_cjk_def tag_indices_def drop_indices_def
      prune_script_record_def prune_lang_sys_def ssXX_tags_eq feature_index_lists_def
      gsub_features_def gsub_scripts_def Let_def)

section \<open>The reference remapper (remap)\<close>

text \<open>
  C2 at the example fonts. The donor's contextual positioning subtable lists the input
  glyph \<^verbatim>\<open>V\<close> of its rule by name. \<^verbatim>\<open>remap\<close> reaches the list and calls itself on the
  string, which does nothing, so after the merge the name \<^verbatim>\<open>V\<close> is still in the
  positioning table: a name of the donor's glyph order, and no name of the combined one.
\<close>

theorem remap_leaves_context_input:
  "map_sum id
     (\<lambda>f. (filter (\<lambda>n. n \<in> set (glyphOrder font_inter)) (gpos_strings f),
           filter (\<lambda>n. n \<notin> set (glyphOrder f)) (gpos_strings f)))
     (merge_inter_font example_env font_cjk font_inter 1)
   = Inr ([''V''], [''V''])"
  by (simp add: ev_defs gpos_strings_def)

end
